theory Spec2Isabelle
  imports Main
begin

section \<open>Instants and durations\<close>

text \<open>
  A Go \<^verbatim>\<open>time.Duration\<close> is a signed 64-bit count of nanoseconds. It is modelled as an
  \<open>int\<close>, and \<open>int64\<close> writes out the wrap-around of the machine arithmetic where the
  source computes on durations. A \<^verbatim>\<open>time.Time\<close> without monotonic reading is modelled
  as the number of nanoseconds since Go's zero instant (January 1 of year 1, 00:00 UTC),
  so that \<^verbatim>\<open>IsZero\<close> is the test against 0. Instants are unbounded integers: the
  limits of Go's representation, billions of years away, are not modelled. The instants
  of the registries and of the certificates are wall-clock instants
  (\<^verbatim>\<open>time.Now().UTC()\<close> and the validity bounds of a parsed certificate carry no
  monotonic reading). The token store compares the expiry of a token with a later reading
  of the clock of the same process, for which Go uses its monotonic clock; the model has
  one clock, that is, it takes the wall clock and the monotonic clock to run alike.
\<close>

type_synonym Duration = int
type_synonym Time = int

definition int64 :: "int \<Rightarrow> int" where
  "int64 x = signed_take_bit 63 x"

definition maxDuration :: Duration where
  "maxDuration = 2 ^ 63 - 1"

definition minDuration :: Duration where
  "minDuration = - (2 ^ 63)"

definition Second :: Duration where
  "Second = 1000000000"

definition Minute :: Duration where
  "Minute = 60 * Second"

definition Hour :: Duration where
  "Hour = 60 * Minute"

text \<open>Go's integer division truncates towards zero.\<close>

definition quo :: "int \<Rightarrow> int \<Rightarrow> int" where
  "quo a b = sgn a * sgn b * (\<bar>a\<bar> div \<bar>b\<bar>)"

definition time_Add :: "Time \<Rightarrow> Duration \<Rightarrow> Time" where
  "time_Add t d = t + d"

text \<open>\<^verbatim>\<open>t.Sub(u)\<close> saturates at the largest and the smallest duration.\<close>

definition time_Sub :: "Time \<Rightarrow> Time \<Rightarrow> Duration" where
  "time_Sub t u =
     (if t - u > maxDuration then maxDuration
      else if t - u < minDuration then minDuration
      else t - u)"

definition time_After :: "Time \<Rightarrow> Time \<Rightarrow> bool" where
  "time_After t u = (u < t)"

definition time_Before :: "Time \<Rightarrow> Time \<Rightarrow> bool" where
  "time_Before t u = (t < u)"

definition time_IsZero :: "Time \<Rightarrow> bool" where
  "time_IsZero t = (t = 0)"

section \<open>Connector registry (state/registry.go)\<close>

record ConnectorRecord =
  ID :: string
  PrivateIP :: string
  Version :: string
  LastSeen :: Time

text \<open>
  The registry is the map \<^verbatim>\<open>connectors\<close> from id to record. The lock only serialises
  the operations, each of which is one state transformer here. \<^verbatim>\<open>&ConnectorRecord{ID: id}\<close>
  leaves the other fields at their zero values.
\<close>

type_synonym Registry = "string \<rightharpoonup> ConnectorRecord"

definition NewRegistry :: Registry where
  "NewRegistry = Map.empty"

definition newConnectorRecord :: "string \<Rightarrow> ConnectorRecord" where
  "newConnectorRecord cid = \<lparr>ID = cid, PrivateIP = [], Version = [], LastSeen = 0\<rparr>"

definition Register :: "Registry \<Rightarrow> Time \<Rightarrow> string \<Rightarrow> string \<Rightarrow> string \<Rightarrow> Registry" where
  "Register r now cid privateIP version =
     (let rec = (case r cid of None \<Rightarrow> newConnectorRecord cid | Some rec \<Rightarrow> rec)
      in r(cid \<mapsto> rec\<lparr>PrivateIP := privateIP, Version := version, LastSeen := now\<rparr>))"

definition RecordHeartbeat :: "Registry \<Rightarrow> Time \<Rightarrow> string \<Rightarrow> string \<Rightarrow> Registry" where
  "RecordHeartbeat r now cid privateIP =
     (let rec = (case r cid of None \<Rightarrow> newConnectorRecord cid | Some rec \<Rightarrow> rec);
          rec1 = (if privateIP \<noteq> [] then rec\<lparr>PrivateIP := privateIP\<rparr> else rec)
      in r(cid \<mapsto> rec1\<lparr>LastSeen := now\<rparr>))"

definition Get :: "Registry \<Rightarrow> string \<Rightarrow> ConnectorRecord option" where
  "Get r cid = r cid"

section \<open>Errors\<close>

text \<open>
  A Go error is either a plain error carrying its message (\<^verbatim>\<open>errors.New\<close>) or a gRPC
  status with a code and a message (\<^verbatim>\<open>status.Error\<close>).
\<close>

datatype Code = InvalidArgument | Unauthenticated | PermissionDenied | FailedPrecondition | Internal

datatype error = Error string | Status Code string

section \<open>Token store (working-backend/controller/state/token_store.go)\<close>

record TokenRecord =
  Hash :: string
  ExpiresAt :: Time
  Used :: bool
  ConnectorID :: string

record TokenStore =
  tokens :: "string \<rightharpoonup> TokenRecord"
  ttl :: Duration
  path :: string

text \<open>\<^verbatim>\<open>hex.EncodeToString\<close>: two lower-case hexadecimal digits for each byte.\<close>

definition hexdigit :: "nat \<Rightarrow> char" where
  "hexdigit n = ''0123456789abcdef'' ! n"

fun hex_EncodeToString :: "string \<Rightarrow> string" where
  "hex_EncodeToString [] = []"
| "hex_EncodeToString (c # cs) =
     hexdigit (of_char c div 16) # hexdigit (of_char c mod 16) # hex_EncodeToString cs"

text \<open>
  SHA-256 is a function of the standard library; the model takes it as the parameter
  \<open>H\<close>, from the bytes of the token to the 32 bytes of the digest.
\<close>

definition hashToken :: "(string \<Rightarrow> string) \<Rightarrow> string \<Rightarrow> string" where
  "hashToken H token = hex_EncodeToString (H token)"

text \<open>
  \<^verbatim>\<open>load\<close> replaces the empty map by the records of the file when a path is configured
  and the file can be read and decoded; \<open>file\<close> is that decoded content, if any.
\<close>

definition NewTokenStore :: "Duration \<Rightarrow> string \<Rightarrow> (string \<rightharpoonup> TokenRecord) option \<Rightarrow> TokenStore" where
  "NewTokenStore d p file =
     \<lparr>tokens = (if p = [] then Map.empty else (case file of None \<Rightarrow> Map.empty | Some records \<Rightarrow> records)),
      ttl = d, path = p\<rparr>"

text \<open>
  \<^verbatim>\<open>saveLocked\<close> writes nothing when no path is configured; otherwise its result is
  that of the file system, the parameter \<open>io\<close> (\<open>None\<close> when the file was written).
\<close>

definition saveLocked :: "TokenStore \<Rightarrow> error option \<Rightarrow> error option" where
  "saveLocked s io = (if path s = [] then None else io)"

text \<open>
  \<^verbatim>\<open>CreateToken\<close>: \<open>rnd\<close> is what \<^verbatim>\<open>rand.Read\<close> gave (the sixteen bytes, or its error)
  and \<open>now\<close> the reading of the clock. The record is stored before the save, so a failed
  save still leaves it in the map.
\<close>

definition CreateToken ::
  "(string \<Rightarrow> string) \<Rightarrow> TokenStore \<Rightarrow> error + string \<Rightarrow> Time \<Rightarrow> error option
    \<Rightarrow> TokenStore \<times> (error + string \<times> Time)" where
  "CreateToken H s rnd now io =
     (case rnd of
        Inl err \<Rightarrow> (s, Inl err)
      | Inr raw \<Rightarrow>
          (let token = hex_EncodeToString raw;
               hash = hashToken H token;
               expires = (if ttl s > 0 then time_Add now (ttl s)
                          else time_Add now (10 * 365 * 24 * Hour));
               s1 = s\<lparr>tokens := (tokens s)(hash \<mapsto>
                      \<lparr>Hash = hash, ExpiresAt = expires, Used = False, ConnectorID = []\<rparr>)\<rparr>
           in (case saveLocked s1 io of
                 Some err \<Rightarrow> (s1, Inl err)
               | None \<Rightarrow> (s1, Inr (token, expires)))))"

definition ConsumeToken ::
  "(string \<Rightarrow> string) \<Rightarrow> TokenStore \<Rightarrow> Time \<Rightarrow> error option \<Rightarrow> string \<Rightarrow> string
    \<Rightarrow> TokenStore \<times> error option" where
  "ConsumeToken H s now io token connectorID =
     (if token = [] then (s, Some (Error ''missing token''))
      else if connectorID = [] then (s, Some (Error ''missing connector id''))
      else (case tokens s (hashToken H token) of
              None \<Rightarrow> (s, Some (Error ''invalid token''))
            | Some rec \<Rightarrow>
                if \<not> time_IsZero (ExpiresAt rec) \<and> time_After now (ExpiresAt rec)
                then (s, Some (Error ''token expired''))
                else (let s1 = s\<lparr>tokens := (tokens s)(hashToken H token \<mapsto>
                                  rec\<lparr>ConnectorID := connectorID\<rparr>)\<rparr>
                      in (s1, saveLocked s1 io))))"

section \<open>The earlier in-memory token store (backend/controller, package state)\<close>

text \<open>
  The earlier version of the store keeps no file, gives every token the expiry
  \<open>now + ttl\<close>, and rejects a token that was used before.
\<close>

record MemTokenStore =
  mem_tokens :: "string \<rightharpoonup> TokenRecord"
  mem_ttl :: Duration

definition NewMemTokenStore :: "Duration \<Rightarrow> MemTokenStore" where
  "NewMemTokenStore d = \<lparr>mem_tokens = Map.empty, mem_ttl = d\<rparr>"

definition MemCreateToken ::
  "(string \<Rightarrow> string) \<Rightarrow> MemTokenStore \<Rightarrow> error + string \<Rightarrow> Time
    \<Rightarrow> MemTokenStore \<times> (error + string \<times> Time)" where
  "MemCreateToken H s rnd now =
     (case rnd of
        Inl err \<Rightarrow> (s, Inl err)
      | Inr raw \<Rightarrow>
          (let token = hex_EncodeToString raw;
               hash = hashToken H token;
               expires = time_Add now (mem_ttl s)
           in (s\<lparr>mem_tokens := (mem_tokens s)(hash \<mapsto>
                    \<lparr>Hash = hash, ExpiresAt = expires, Used = False, ConnectorID = []\<rparr>)\<rparr>,
               Inr (token, expires))))"

definition MemConsumeToken ::
  "(string \<Rightarrow> string) \<Rightarrow> MemTokenStore \<Rightarrow> Time \<Rightarrow> string \<Rightarrow> string
    \<Rightarrow> MemTokenStore \<times> error option" where
  "MemConsumeToken H s now token connectorID =
     (if token = [] then (s, Some (Error ''missing token''))
      else if connectorID = [] then (s, Some (Error ''missing connector id''))
      else (case mem_tokens s (hashToken H token) of
              None \<Rightarrow> (s, Some (Error ''invalid token''))
            | Some rec \<Rightarrow>
                if time_After now (ExpiresAt rec) then (s, Some (Error ''token expired''))
                else if Used rec then (s, Some (Error ''token already used''))
                else (s\<lparr>mem_tokens := (mem_tokens s)(hashToken H token \<mapsto>
                          rec\<lparr>Used := True, ConnectorID := connectorID\<rparr>)\<rparr>, None)))"

section \<open>Tunneler status registry (state/tunneler_status.go)\<close>

record TunnelerRecord =
  tun_ID :: string
  tun_SPIFFEID :: string
  tun_ConnectorID :: string
  tun_LastSeen :: Time

type_synonym TunnelerStatusRegistry = "string \<rightharpoonup> TunnelerRecord"

definition NewTunnelerStatusRegistry :: TunnelerStatusRegistry where
  "NewTunnelerStatusRegistry = Map.empty"

definition Record :: "TunnelerStatusRegistry \<Rightarrow> Time \<Rightarrow> string \<Rightarrow> string \<Rightarrow> string \<Rightarrow> TunnelerStatusRegistry" where
  "Record r now tid spiffeID connectorID =
     (if tid = [] then r
      else (let rec = (case r tid of
                         None \<Rightarrow> \<lparr>tun_ID = tid, tun_SPIFFEID = [], tun_ConnectorID = [], tun_LastSeen = 0\<rparr>
                       | Some rec \<Rightarrow> rec);
                rec1 = (if spiffeID \<noteq> [] then rec\<lparr>tun_SPIFFEID := spiffeID\<rparr> else rec);
                rec2 = (if connectorID \<noteq> [] then rec1\<lparr>tun_ConnectorID := connectorID\<rparr> else rec1)
            in r(tid \<mapsto> rec2\<lparr>tun_LastSeen := now\<rparr>)))"

section \<open>Listing the registries\<close>

text \<open>
  \<^verbatim>\<open>List\<close> copies the records of the map in the order in which Go iterates over it,
  which is not determined, and sorts the copies by \<open>LastSeen\<close>, latest first. The
  iteration order is the parameter \<open>keys\<close>, an enumeration of the keys; the sort is a
  stable one here, so that the records with equal \<open>LastSeen\<close> stay in iteration order.
\<close>

definition List_connectors :: "Registry \<Rightarrow> string list \<Rightarrow> ConnectorRecord list" where
  "List_connectors r keys = sort_key (\<lambda>rec. - LastSeen rec) (List.map_filter r keys)"

definition List_tunnelers :: "TunnelerStatusRegistry \<Rightarrow> string list \<Rightarrow> TunnelerRecord list" where
  "List_tunnelers r keys = sort_key (\<lambda>rec. - tun_LastSeen rec) (List.map_filter r keys)"

section \<open>Admin listing (admin package, handleListConnectors and handleListTunnelers)\<close>

text \<open>
  The JSON objects of the two listings. The field \<open>last_seen\<close> holds the duration
  \<^verbatim>\<open>now.Sub(rec.LastSeen)\<close> that the handler gives to \<^verbatim>\<open>humanizeDuration\<close>; the text that
  \<^verbatim>\<open>humanizeDuration\<close> makes of it goes through floating point and is not modelled.
\<close>

record respConnector =
  rc_ID :: string
  rc_Status :: string
  rc_PrivateIP :: string
  rc_LastSeen :: Duration
  rc_Version :: string

record respTunneler =
  rt_ID :: string
  rt_Status :: string
  rt_ConnectorID :: string
  rt_LastSeen :: Duration

datatype http_error = HttpError nat string

definition status_of :: "Time \<Rightarrow> Time \<Rightarrow> string" where
  "status_of now lastSeen =
     (if time_Sub now lastSeen < 30 * Second then ''ONLINE'' else ''OFFLINE'')"

definition connector_entry :: "Time \<Rightarrow> ConnectorRecord \<Rightarrow> respConnector" where
  "connector_entry now rec =
     \<lparr>rc_ID = ID rec, rc_Status = status_of now (LastSeen rec), rc_PrivateIP = PrivateIP rec,
      rc_LastSeen = time_Sub now (LastSeen rec), rc_Version = Version rec\<rparr>"

definition tunneler_entry :: "Time \<Rightarrow> TunnelerRecord \<Rightarrow> respTunneler" where
  "tunneler_entry now rec =
     \<lparr>rt_ID = tun_ID rec, rt_Status = status_of now (tun_LastSeen rec),
      rt_ConnectorID = tun_ConnectorID rec, rt_LastSeen = time_Sub now (tun_LastSeen rec)\<rparr>"

definition handleListConnectors ::
  "string \<Rightarrow> Registry \<Rightarrow> string list \<Rightarrow> Time \<Rightarrow> http_error + respConnector list" where
  "handleListConnectors method reg keys now =
     (if method \<noteq> ''GET'' then Inl (HttpError 405 ''method not allowed'')
      else Inr (map (connector_entry now) (List_connectors reg keys)))"

definition handleListTunnelers ::
  "string \<Rightarrow> TunnelerStatusRegistry option \<Rightarrow> string list \<Rightarrow> Time \<Rightarrow> http_error + respTunneler list" where
  "handleListTunnelers method tunnelers keys now =
     (if method \<noteq> ''GET'' then Inl (HttpError 405 ''method not allowed'')
      else (case tunnelers of
              None \<Rightarrow> Inr []
            | Some reg \<Rightarrow> Inr (map (tunneler_entry now) (List_tunnelers reg keys))))"

section \<open>Renewal scheduling of the connector and the tunneler (run package)\<close>

text \<open>
  \<^verbatim>\<open>nextRenewal(notAfter, totalTTL)\<close> reads the clock up to three times: in
  \<^verbatim>\<open>time.Until\<close>, in the comparison and in the result. \<open>clock k\<close> is the reading of
  the \<open>k\<close>-th call. The product \<^verbatim>\<open>totalTTL * 30\<close> is a product of 64-bit integers.
\<close>

definition nextRenewal :: "(nat \<Rightarrow> Time) \<Rightarrow> Time \<Rightarrow> Duration \<Rightarrow> Time" where
  "nextRenewal clock notAfter totalTTL =
     (let remaining = time_Sub notAfter (clock 0) in
      if remaining \<le> 0 then time_Add (clock 1) (10 * Second)
      else (let totalTTL1 = (if totalTTL \<le> 0 then remaining else totalTTL);
                renewAt = quo (int64 (totalTTL1 * 30)) 100;
                next = time_Add notAfter (int64 (- renewAt))
            in if time_Before next (time_Add (clock 1) (10 * Second))
               then time_Add (clock 2) (10 * Second)
               else next))"

text \<open>
  The scheduler of \<^verbatim>\<open>working-backend/connector/run/run.go\<close> takes the expiry alone and
  renews a third of the remaining time ahead, five minutes at least.
\<close>

definition nextRenewal_remaining :: "(nat \<Rightarrow> Time) \<Rightarrow> Time \<Rightarrow> Time" where
  "nextRenewal_remaining clock notAfter =
     (let ttl0 = time_Sub notAfter (clock 0) in
      if ttl0 \<le> 0 then time_Add (clock 1) (10 * Second)
      else (let advance = quo ttl0 3;
                advance1 = (if advance < 5 * Minute then 5 * Minute else advance);
                next = time_Add notAfter (int64 (- advance1))
            in if time_Before next (time_Add (clock 1) (30 * Second))
               then time_Add (clock 2) (30 * Second)
               else next))"

text \<open>
  The schedule in the words of the specification:
  \<open>next_at = max(now + 10s, not_after - renew_ahead)\<close> with
  \<open>renew_ahead = total_ttl \<times> 0.30\<close>, in whole nanoseconds.
\<close>

definition spec_next_at :: "Time \<Rightarrow> Time \<Rightarrow> Duration \<Rightarrow> Time" where
  "spec_next_at now notAfter totalTTL =
     max (now + 10 * Second) (notAfter - (totalTTL * 30) div 100)"

section \<open>Strings\<close>

text \<open>
  \<^verbatim>\<open>strings.TrimPrefix\<close>, \<^verbatim>\<open>strings.Split\<close> at a one-byte separator (the result is never
  empty: a string without separator is its own single part) and \<^verbatim>\<open>strings.Contains\<close>
  for a one-byte substring.
\<close>

definition TrimPrefix :: "string \<Rightarrow> string \<Rightarrow> string" where
  "TrimPrefix s p = (if take (length p) s = p then drop (length p) s else s)"

fun Split :: "string \<Rightarrow> char \<Rightarrow> string list" where
  "Split [] sep = [[]]"
| "Split (c # cs) sep =
     (if c = sep then [] # Split cs sep
      else (case Split cs sep of [] \<Rightarrow> [[c]] | p # ps \<Rightarrow> (c # p) # ps))"

definition Contains :: "string \<Rightarrow> char \<Rightarrow> bool" where
  "Contains s c = (c \<in> set s)"

section \<open>What the model takes from the Go standard library\<close>

text \<open>
  A \<^verbatim>\<open>url.URL\<close> with the fields that the code reads. An \<^verbatim>\<open>x509.Certificate\<close> with the
  fields that \<^verbatim>\<open>IssueWorkloadCert\<close> sets in its template and the interceptor reads. A
  certificate is represented by these fields: the DER and PEM coding and the signature
  are the library's.
\<close>

record URL =
  Scheme :: string
  Host :: string
  Path :: string

type_synonym IP = string
type_synonym PublicKey = string

datatype KeyUsage = KeyUsageDigitalSignature | KeyUsageCertSign | KeyUsageCRLSign

datatype ExtKeyUsage = ExtKeyUsageClientAuth | ExtKeyUsageServerAuth

record Certificate =
  SerialNumber :: nat
  NotBefore :: Time
  NotAfter :: Time
  KeyUsage :: "KeyUsage list"
  ExtKeyUsage :: "ExtKeyUsage list"
  BasicConstraintsValid :: bool
  IsCA :: bool
  URIs :: "URL list"
  DNSNames :: "string list"
  IPAddresses :: "IP list"

text \<open>
  The library functions are parameters of the model, collected in one record:
  \<^verbatim>\<open>sha256.Sum256\<close>, \<^verbatim>\<open>url.Parse\<close>, \<^verbatim>\<open>(*url.URL).String\<close>, \<^verbatim>\<open>net.ParseIP\<close>
  (\<open>None\<close> for Go's \<^verbatim>\<open>nil\<close>), \<^verbatim>\<open>pem.Decode\<close> (the bytes of the first block, \<open>None\<close>
  when there is no block), \<^verbatim>\<open>x509.ParsePKIXPublicKey\<close>, and the outcome of
  \<^verbatim>\<open>x509.CreateCertificate\<close> for a template, the certificate of the issuer and the public
  key of the subject (\<open>None\<close> when the certificate was signed).
\<close>

record stdlib =
  sha256_Sum256 :: "string \<Rightarrow> string"
  url_Parse :: "string \<Rightarrow> error + URL"
  url_String :: "URL \<Rightarrow> string"
  net_ParseIP :: "string \<Rightarrow> IP option"
  pem_Decode :: "string \<Rightarrow> string option"
  x509_ParsePKIXPublicKey :: "string \<Rightarrow> error + PublicKey"
  x509_CreateCertificate :: "Certificate \<Rightarrow> Certificate \<Rightarrow> PublicKey \<Rightarrow> error option"

text \<open>
  \<^verbatim>\<open>x509.CreateCertificate\<close> writes the validity of the template as ASN.1 times, which
  count whole seconds. The certificate in the DER that it returns has the two instants
  of the template without their fraction of a second, and the other fields of the record
  as the template has them.
\<close>

definition whole_seconds :: "Time \<Rightarrow> Time" where
  "whole_seconds t = t - t mod Second"

definition x509_encoded :: "Certificate \<Rightarrow> Certificate" where
  "x509_encoded tmpl =
     tmpl\<lparr>NotBefore := whole_seconds (NotBefore tmpl), NotAfter := whole_seconds (NotAfter tmpl)\<rparr>"

text \<open>The text of an error, as \<^verbatim>\<open>%v\<close> prints it.\<close>

fun code_name :: "Code \<Rightarrow> string" where
  "code_name InvalidArgument = ''InvalidArgument''"
| "code_name Unauthenticated = ''Unauthenticated''"
| "code_name PermissionDenied = ''PermissionDenied''"
| "code_name FailedPrecondition = ''FailedPrecondition''"
| "code_name Internal = ''Internal''"

fun error_text :: "error \<Rightarrow> string" where
  "error_text (Error m) = m"
| "error_text (Status c m) = ''rpc error: code = '' @ code_name c @ '' desc = '' @ m"

section \<open>Issuing a workload certificate (controller/ca/issue.go)\<close>

record CA =
  Cert :: "Certificate option"
  Key :: "string option"

text \<open>
  The template \<^verbatim>\<open>tmpl\<close> that \<^verbatim>\<open>IssueWorkloadCert\<close> fills in, for the serial number
  \<open>sn\<close> and the reading \<open>now\<close> of the clock.
\<close>

definition leafTemplate ::
  "nat \<Rightarrow> Time \<Rightarrow> Duration \<Rightarrow> URL \<Rightarrow> string list \<Rightarrow> IP list \<Rightarrow> Certificate" where
  "leafTemplate sn now d uri dnsNames ipAddrs =
     \<lparr>SerialNumber = sn,
      NotBefore = time_Add now (- 1 * Minute),
      NotAfter = time_Add now d,
      KeyUsage = [KeyUsageDigitalSignature],
      ExtKeyUsage = [ExtKeyUsageClientAuth, ExtKeyUsageServerAuth],
      BasicConstraintsValid = True,
      IsCA = False,
      URIs = [uri],
      DNSNames = dnsNames,
      IPAddresses = ipAddrs\<rparr>"

text \<open>
  \<open>serial\<close> is what \<^verbatim>\<open>rand.Int\<close> gave (a number below \<open>2^62\<close>, or its error) and \<open>now\<close> the
  reading of the clock when the template is made. The result stands for the PEM block
  of the DER that \<^verbatim>\<open>x509.CreateCertificate\<close> returned: the certificate that a reader of
  the block finds.
\<close>

definition IssueWorkloadCert ::
  "stdlib \<Rightarrow> CA option \<Rightarrow> string \<Rightarrow> PublicKey \<Rightarrow> Duration \<Rightarrow> string list \<Rightarrow> IP list
    \<Rightarrow> error + nat \<Rightarrow> Time \<Rightarrow> error + Certificate" where
  "IssueWorkloadCert L ca spiffeID pubKey d dnsNames ipAddrs serial now =
     (case ca of
        None \<Rightarrow> Inl (Error ''CA is not initialized'')
      | Some c \<Rightarrow>
         (case Cert c of
            None \<Rightarrow> Inl (Error ''CA is not initialized'')
          | Some caCert \<Rightarrow>
             if Key c = None then Inl (Error ''CA is not initialized'')
             else if d \<le> 0 then Inl (Error ''invalid certificate TTL'')
             else (case url_Parse L spiffeID of
                     Inl err \<Rightarrow> Inl err
                   | Inr uri \<Rightarrow>
                       if Scheme uri \<noteq> ''spiffe''
                       then Inl (Error ''SPIFFE ID must use spiffe:// scheme'')
                       else (case serial of
                               Inl err \<Rightarrow> Inl err
                             | Inr sn \<Rightarrow>
                                (let tmpl = leafTemplate sn now d uri dnsNames ipAddrs
                                 in (case x509_CreateCertificate L tmpl caCert pubKey of
                                       Some err \<Rightarrow> Inl err
                                     | None \<Rightarrow> Inr (x509_encoded tmpl)))))))"

section \<open>Allowlist of tunnelers (state/tunneler_registry.go)\<close>

record TunnelerInfo =
  info_ID :: string
  info_SPIFFEID :: string

record TunnelerRegistry =
  byID :: "string \<rightharpoonup> TunnelerInfo"
  order :: "string list"

definition NewTunnelerRegistry :: TunnelerRegistry where
  "NewTunnelerRegistry = \<lparr>byID = Map.empty, order = []\<rparr>"

definition Add :: "TunnelerRegistry \<Rightarrow> string \<Rightarrow> string \<Rightarrow> TunnelerRegistry" where
  "Add r tid spiffeID =
     (if tid = [] \<or> spiffeID = [] then r
      else \<lparr>byID = (byID r)(tid \<mapsto> \<lparr>info_ID = tid, info_SPIFFEID = spiffeID\<rparr>),
            order = (if byID r tid = None then order r @ [tid] else order r)\<rparr>)"

section \<open>Enrollment service (controller/api/enroll.go)\<close>

record EnrollRequest =
  GetId :: string
  GetPublicKey :: string
  GetToken :: string
  GetPrivateIp :: string
  GetVersion :: string

record EnrollResponse =
  Certificate :: Certificate
  CaCertificate :: string

text \<open>
  The server holds pointers to the CA, the token store, the registry and the notifier,
  each of which may be nil. The notifier is the control-plane server; of its
  \<^verbatim>\<open>NotifyTunnelerAllowed\<close> the model keeps the addition to the allowlist and leaves the
  broadcast on the open streams out.
\<close>

record EnrollmentServer =
  CA :: "CA option"
  CAPEM :: string
  TrustDomain :: string
  Tokens :: "TokenStore option"
  Registry :: "Registry option"
  Notifier :: "TunnelerRegistry option"

text \<open>
  The values that the authentication interceptor publishes in the context of a request,
  and the peer of the connection.
\<close>

datatype AuthInfo = TLSInfo "Certificate list" | NoTLS

record Context =
  peer :: "AuthInfo option"
  spiffe_id :: "string option"
  spiffe_role :: "string option"

text \<open>What one call reads from the clock, the random source and the file system.\<close>

record Env =
  token_now :: Time
  token_io :: "error option"
  serial :: "error + nat"
  issue_now :: Time
  register_now :: Time

definition id_char :: "char \<Rightarrow> bool" where
  "id_char c =
     (let n = (of_char c :: nat)
      in (97 \<le> n \<and> n \<le> 122) \<or> (65 \<le> n \<and> n \<le> 90) \<or> (48 \<le> n \<and> n \<le> 57)
         \<or> c = CHR ''-'' \<or> c = CHR ''_'' \<or> c = CHR ''.'')"

definition validID :: "string \<Rightarrow> bool" where
  "validID s = (\<not> (s = [] \<or> length s > 128) \<and> list_all id_char s)"

definition parsePublicKey :: "stdlib \<Rightarrow> string \<Rightarrow> error + PublicKey" where
  "parsePublicKey L pemBytes =
     (if length pemBytes = 0 then Inl (Error ''public key is empty'')
      else (case pem_Decode L pemBytes of
              None \<Rightarrow> Inl (Error ''failed to decode PEM block'')
            | Some bytes \<Rightarrow>
               (case x509_ParsePKIXPublicKey L bytes of
                  Inl err \<Rightarrow> Inl err
                | Inr pub \<Rightarrow> Inr pub)))"

definition authorizeConnectorToken ::
  "stdlib \<Rightarrow> EnrollmentServer \<Rightarrow> Env \<Rightarrow> string \<Rightarrow> string \<Rightarrow> EnrollmentServer \<times> error option" where
  "authorizeConnectorToken L s env token connectorID =
     (case Tokens s of
        None \<Rightarrow> (s, Some (Status FailedPrecondition ''token service unavailable''))
      | Some store \<Rightarrow>
         (case ConsumeToken (sha256_Sum256 L) store (token_now env) (token_io env) token connectorID of
            (store1, Some err) \<Rightarrow>
              (s\<lparr>Tokens := Some store1\<rparr>, Some (Status PermissionDenied ''invalid enrollment token''))
          | (store1, None) \<Rightarrow> (s\<lparr>Tokens := Some store1\<rparr>, None)))"

definition identityFromContext :: "EnrollmentServer \<Rightarrow> Context \<Rightarrow> error + string \<times> string" where
  "identityFromContext s ctx =
     (case spiffe_id ctx of
        None \<Rightarrow> Inl (Status Unauthenticated ''missing SPIFFE identity'')
      | Some spiffeID \<Rightarrow>
         (case spiffe_role ctx of
            None \<Rightarrow> Inl (Status Unauthenticated ''missing SPIFFE role'')
          | Some role \<Rightarrow>
             (let i = TrimPrefix spiffeID (''spiffe://'' @ TrustDomain s @ ''/'' @ role @ ''/'')
              in if i = [] \<or> Contains i (CHR ''/'')
                 then Inl (Status Unauthenticated ''invalid SPIFFE id'')
                 else Inr (role, i))))"

definition parse_ip_list :: "stdlib \<Rightarrow> string \<Rightarrow> IP list" where
  "parse_ip_list L a = (case net_ParseIP L a of None \<Rightarrow> [] | Some ip \<Rightarrow> [ip])"

definition EnrollConnector ::
  "stdlib \<Rightarrow> EnrollmentServer \<Rightarrow> Env \<Rightarrow> EnrollRequest
    \<Rightarrow> EnrollmentServer \<times> (error + EnrollResponse)" where
  "EnrollConnector L s env req =
     (if \<not> validID (GetId req) then (s, Inl (Status InvalidArgument ''missing connector id''))
      else if GetPrivateIp req = [] then (s, Inl (Status InvalidArgument ''missing private ip''))
      else if GetVersion req = [] then (s, Inl (Status InvalidArgument ''missing version''))
      else (case parsePublicKey L (GetPublicKey req) of
              Inl err \<Rightarrow> (s, Inl (Status InvalidArgument (''invalid public key: '' @ error_text err)))
            | Inr pubKey \<Rightarrow>
               (case authorizeConnectorToken L s env (GetToken req) (GetId req) of
                  (s1, Some err) \<Rightarrow> (s1, Inl err)
                | (s1, None) \<Rightarrow>
                   (let spiffeID = ''spiffe://'' @ TrustDomain s @ ''/connector/'' @ GetId req;
                        ipAddrs = parse_ip_list L (GetPrivateIp req)
                    in (case IssueWorkloadCert L (CA s) spiffeID pubKey (5 * Minute) [] ipAddrs
                               (serial env) (issue_now env) of
                          Inl err \<Rightarrow>
                            (s1, Inl (Status Internal (''certificate issuance failed: '' @ error_text err)))
                        | Inr certPEM \<Rightarrow>
                            (s1\<lparr>Registry := map_option
                                   (\<lambda>r. Register r (register_now env) (GetId req) (GetPrivateIp req)
                                           (GetVersion req)) (Registry s1)\<rparr>,
                             Inr \<lparr>Certificate = certPEM, CaCertificate = CAPEM s\<rparr>))))))"

definition EnrollTunneler ::
  "stdlib \<Rightarrow> EnrollmentServer \<Rightarrow> Env \<Rightarrow> EnrollRequest
    \<Rightarrow> EnrollmentServer \<times> (error + EnrollResponse)" where
  "EnrollTunneler L s env req =
     (if \<not> validID (GetId req) then (s, Inl (Status InvalidArgument ''missing tunneler id''))
      else if GetToken req = [] then (s, Inl (Status InvalidArgument ''missing enrollment token''))
      else (case parsePublicKey L (GetPublicKey req) of
              Inl err \<Rightarrow> (s, Inl (Status InvalidArgument (''invalid public key: '' @ error_text err)))
            | Inr pubKey \<Rightarrow>
               (case authorizeConnectorToken L s env (GetToken req) (GetId req) of
                  (s1, Some err) \<Rightarrow> (s1, Inl err)
                | (s1, None) \<Rightarrow>
                   (let spiffeID = ''spiffe://'' @ TrustDomain s @ ''/tunneler/'' @ GetId req
                    in (case IssueWorkloadCert L (CA s) spiffeID pubKey (30 * Minute) [] []
                               (serial env) (issue_now env) of
                          Inl err \<Rightarrow>
                            (s1, Inl (Status Internal (''certificate issuance failed: '' @ error_text err)))
                        | Inr certPEM \<Rightarrow>
                            (s1\<lparr>Notifier := map_option (\<lambda>r. Add r (GetId req) spiffeID) (Notifier s1)\<rparr>,
                             Inr \<lparr>Certificate = certPEM, CaCertificate = CAPEM s\<rparr>))))))"

text \<open>\<^verbatim>\<open>Renew\<close> changes neither the token store nor the registry.\<close>

definition Renew ::
  "stdlib \<Rightarrow> EnrollmentServer \<Rightarrow> Env \<Rightarrow> Context \<Rightarrow> EnrollRequest \<Rightarrow> error + EnrollResponse" where
  "Renew L s env ctx req =
     (if \<not> validID (GetId req) then Inl (Status InvalidArgument ''missing id'')
      else (case parsePublicKey L (GetPublicKey req) of
              Inl err \<Rightarrow> Inl (Status InvalidArgument (''invalid public key: '' @ error_text err))
            | Inr pubKey \<Rightarrow>
               (case identityFromContext s ctx of
                  Inl err \<Rightarrow> Inl err
                | Inr (role, i) \<Rightarrow>
                   if i \<noteq> GetId req then Inl (Status PermissionDenied ''id mismatch for renewal'')
                   else (let spiffeID = ''spiffe://'' @ TrustDomain s @ ''/'' @ role @ ''/'' @ GetId req;
                             d = (if role = ''connector'' then 5 * Minute else 30 * Minute);
                             ipAddrs =
                               (if role = ''connector'' then
                                  (case Registry s of
                                     None \<Rightarrow> []
                                   | Some reg \<Rightarrow>
                                      (case Get reg (GetId req) of
                                         None \<Rightarrow> []
                                       | Some rec \<Rightarrow> parse_ip_list L (PrivateIP rec)))
                                else [])
                         in (case IssueWorkloadCert L (CA s) spiffeID pubKey d [] ipAddrs
                                    (serial env) (issue_now env) of
                               Inl err \<Rightarrow>
                                 Inl (Status Internal (''certificate renewal failed: '' @ error_text err))
                             | Inr certPEM \<Rightarrow>
                                 Inr \<lparr>Certificate = certPEM, CaCertificate = CAPEM s\<rparr>)))))"

section \<open>Authentication interceptor (controller/api, interceptor)\<close>

text \<open>
  The set of allowed roles is a Go map used as a set; \<^verbatim>\<open>makeRoleSet\<close> gives nil for an
  empty list and leaves the empty name out.
\<close>

definition makeRoleSet :: "string list \<Rightarrow> string set" where
  "makeRoleSet roles = (if length roles = 0 then {} else set (filter (\<lambda>r. r \<noteq> []) roles))"

definition extractAndVerifySPIFFE ::
  "stdlib \<Rightarrow> Context \<Rightarrow> string \<Rightarrow> string set \<Rightarrow> error + string \<times> string" where
  "extractAndVerifySPIFFE L ctx trustDomain allowedRoles =
     (case peer ctx of
        None \<Rightarrow> Inl (Error ''missing peer information'')
      | Some NoTLS \<Rightarrow> Inl (Error ''connection is not using TLS'')
      | Some (TLSInfo certs) \<Rightarrow>
         (case certs of
            [] \<Rightarrow> Inl (Error ''no peer certificates presented'')
          | cert # _ \<Rightarrow>
             (case URIs cert of
                [uri] \<Rightarrow>
                  if Scheme uri \<noteq> ''spiffe'' then Inl (Error ''SPIFFE ID must use spiffe:// scheme'')
                  else if Host uri \<noteq> trustDomain then Inl (Error ''SPIFFE trust domain mismatch'')
                  else (case Split (TrimPrefix (Path uri) ''/'') (CHR ''/'') of
                          [role, _] \<Rightarrow>
                            if allowedRoles \<noteq> {} \<and> role \<notin> allowedRoles
                            then Inl (Error ''invalid SPIFFE role'')
                            else Inr (url_String L uri, role)
                        | _ \<Rightarrow> Inl (Error ''invalid SPIFFE path format''))
              | _ \<Rightarrow> Inl (Error ''exactly one SPIFFE ID is required''))))"

text \<open>
  The unary interceptor. The handler is a function of the context; \<open>Inl\<close> is the
  rejection by the interceptor, before the handler runs, and \<open>Inr\<close> carries what the
  handler returned.
\<close>

definition UnaryAuthInterceptor ::
  "stdlib \<Rightarrow> string \<Rightarrow> string set \<Rightarrow> string list \<Rightarrow> Context \<Rightarrow> string \<Rightarrow> (Context \<Rightarrow> 'r)
    \<Rightarrow> error + 'r" where
  "UnaryAuthInterceptor L trustDomain unauthenticatedMethods allowedRoles ctx fullMethod handler =
     (if fullMethod \<in> unauthenticatedMethods then Inr (handler ctx)
      else (case extractAndVerifySPIFFE L ctx trustDomain (makeRoleSet allowedRoles) of
              Inl err \<Rightarrow> Inl err
            | Inr (spiffeID, role) \<Rightarrow>
                Inr (handler (ctx\<lparr>spiffe_id := Some spiffeID, spiffe_role := Some role\<rparr>))))"

section \<open>Well-formed trust domains and a library for closed examples\<close>

text \<open>
  A trust domain is a bare DNS-like name: labels of letters, digits and hyphens, none of
  them empty, separated by dots.
\<close>

definition label_char :: "char \<Rightarrow> bool" where
  "label_char c =
     (let n = (of_char c :: nat)
      in (97 \<le> n \<and> n \<le> 122) \<or> (65 \<le> n \<and> n \<le> 90) \<or> (48 \<le> n \<and> n \<le> 57) \<or> c = CHR ''-'')"

definition dns_name :: "string \<Rightarrow> bool" where
  "dns_name h = list_all (\<lambda>l. l \<noteq> [] \<and> list_all label_char l) (Split h (CHR ''.''))"

definition plain_path :: "string \<Rightarrow> bool" where
  "plain_path p = (take 1 p = ''/'' \<and> list_all (\<lambda>c. id_char c \<or> c = CHR ''/'') p)"

text \<open>
  What the properties below need of \<^verbatim>\<open>net/url\<close>: a string \<open>spiffe://h/p\<close> whose host is a
  DNS-like name and whose path has only letters, digits, \<open>-\<close>, \<open>_\<close>, \<open>.\<close> and \<open>/\<close> is
  parsed into its scheme, its host and its path, and printed back as it was.
\<close>

definition url_library_ok :: "stdlib \<Rightarrow> bool" where
  "url_library_ok L =
     (\<forall>h p. dns_name h \<and> plain_path p \<longrightarrow>
        url_Parse L (''spiffe://'' @ h @ p) = Inr \<lparr>Scheme = ''spiffe'', Host = h, Path = p\<rparr>
        \<and> url_String L \<lparr>Scheme = ''spiffe'', Host = h, Path = p\<rparr> = ''spiffe://'' @ h @ p)"

text \<open>
  An instance of the library for closed examples: a parser of \<open>scheme://host/path\<close>, a
  parser of dotted-decimal IPv4 addresses, the identity in place of SHA-256 and of the
  decoding of keys, and a signer that, like \<^verbatim>\<open>crypto/x509\<close>, refuses a template with a
  DNS name or a URI that is not 7-bit text.
\<close>

definition plain_url_Parse :: "string \<Rightarrow> error + URL" where
  "plain_url_Parse s =
     (let sch = takeWhile (\<lambda>c. c \<noteq> CHR '':'') s;
          r = dropWhile (\<lambda>c. c \<noteq> CHR '':'') s
      in if sch \<noteq> [] \<and> take 3 r = ''://''
         then Inr \<lparr>Scheme = sch,
                   Host = takeWhile (\<lambda>c. c \<noteq> CHR ''/'') (drop 3 r),
                   Path = dropWhile (\<lambda>c. c \<noteq> CHR ''/'') (drop 3 r)\<rparr>
         else Inl (Error ''unsupported URL''))"

definition plain_url_String :: "URL \<Rightarrow> string" where
  "plain_url_String u = Scheme u @ ''://'' @ Host u @ Path u"

definition dec_byte :: "string \<Rightarrow> nat option" where
  "dec_byte ds =
     (if ds \<noteq> [] \<and> length ds \<le> 3 \<and> list_all (\<lambda>c. 48 \<le> (of_char c :: nat) \<and> (of_char c :: nat) \<le> 57) ds
      then (let n = foldl (\<lambda>a c. 10 * a + (of_char c - 48)) 0 ds
            in if n \<le> 255 then Some n else None)
      else None)"

definition ipv4_ParseIP :: "string \<Rightarrow> IP option" where
  "ipv4_ParseIP a =
     (case map dec_byte (Split a (CHR ''.'')) of
        [Some w, Some x, Some y, Some z] \<Rightarrow> Some (map char_of [w, x, y, z])
      | _ \<Rightarrow> None)"

definition ia5 :: "string \<Rightarrow> bool" where
  "ia5 n = list_all (\<lambda>c. (of_char c :: nat) < 128) n"

definition plain_lib :: stdlib where
  "plain_lib =
     \<lparr>sha256_Sum256 = (\<lambda>t. t),
      url_Parse = plain_url_Parse,
      url_String = plain_url_String,
      net_ParseIP = ipv4_ParseIP,
      pem_Decode = (\<lambda>b. if take 5 b = ''-----'' then Some b else None),
      x509_ParsePKIXPublicKey = (\<lambda>b. Inr b),
      x509_CreateCertificate =
        (\<lambda>tmpl parent pub.
           if list_all ia5 (DNSNames tmpl) \<and> list_all (\<lambda>u. ia5 (plain_url_String u)) (URIs tmpl)
           then None
           else Some (Error ''x509: name cannot be encoded as an IA5String''))\<rparr>"

section \<open>A controller for closed examples\<close>

text \<open>
  A server of the trust domain \<open>mycorp.internal\<close> with one token in its store and one
  connector in its registry, the readings of one call, requests that carry that token,
  and the context of a peer that presents one certificate.
\<close>

definition demo_ca :: CA where
  "demo_ca =
     \<lparr>Cert = Some \<lparr>SerialNumber = 1, NotBefore = 0, NotAfter = 10 * 365 * 24 * Hour,
                    KeyUsage = [KeyUsageCertSign, KeyUsageCRLSign], ExtKeyUsage = [],
                    BasicConstraintsValid = True, IsCA = True, URIs = [], DNSNames = [],
                    IPAddresses = []\<rparr>,
      Key = Some ''ca-key''\<rparr>"

definition demo_server :: EnrollmentServer where
  "demo_server =
     \<lparr>CA = Some demo_ca, CAPEM = ''ca-pem'', TrustDomain = ''mycorp.internal'',
      Tokens = Some (fst (CreateToken (\<lambda>t. t) (NewTokenStore (10 * Minute) [] None)
                            (Inr ''0123456789abcdef'') 0 None)),
      Registry = Some (Register NewRegistry 0 ''c7'' ''10.0.0.7'' ''1.0''),
      Notifier = Some NewTunnelerRegistry\<rparr>"

definition demo_env :: Env where
  "demo_env = \<lparr>token_now = 60 * Second, token_io = None, serial = Inr 42,
               issue_now = 61 * Second, register_now = 62 * Second\<rparr>"

definition demo_request :: "string \<Rightarrow> string \<Rightarrow> EnrollRequest" where
  "demo_request i ip =
     \<lparr>GetId = i, GetPublicKey = ''-----BEGIN PUBLIC KEY-----'',
      GetToken = hex_EncodeToString ''0123456789abcdef'', GetPrivateIp = ip, GetVersion = ''1.0''\<rparr>"


definition demo_context :: "string option \<Rightarrow> string option \<Rightarrow> Context" where
  "demo_context sid role = \<lparr>peer = None, spiffe_id = sid, spiffe_role = role\<rparr>"


definition peer_certificate :: "URL list \<Rightarrow> Certificate" where
  "peer_certificate uris =
     \<lparr>SerialNumber = 7, NotBefore = 0, NotAfter = 5 * Minute, KeyUsage = [KeyUsageDigitalSignature],
      ExtKeyUsage = [ExtKeyUsageClientAuth, ExtKeyUsageServerAuth], BasicConstraintsValid = True,
      IsCA = False, URIs = uris, DNSNames = [], IPAddresses = []\<rparr>"

definition peer_context :: "URL list \<Rightarrow> Context" where
  "peer_context uris = \<lparr>peer = Some (TLSInfo [peer_certificate uris]), spiffe_id = None, spiffe_role = None\<rparr>"

section \<open>Heartbeats\<close>

text \<open>
  C9. For a connector that already has a record, a heartbeat at instant \<open>now\<close> leaves
  the id and the version of the record as they were, sets \<open>last_seen\<close> to \<open>now\<close>, and
  leaves \<open>private_ip\<close> as it was whenever the heartbeat carries an empty address or the
  address already stored; the records of all other connectors are untouched. A second
  identical heartbeat gives the registry that the second heartbeat alone gives: nothing
  but \<open>last_seen\<close> moves.
\<close>

theorem RecordHeartbeat_frame:
  assumes "r cid = Some rec"
  shows "\<exists>rec'. RecordHeartbeat r now cid ip cid = Some rec'
           \<and> ID rec' = ID rec \<and> Version rec' = Version rec \<and> LastSeen rec' = now
           \<and> (ip = [] \<or> ip = PrivateIP rec \<longrightarrow> PrivateIP rec' = PrivateIP rec)
           \<and> (ip = [] \<or> ip = PrivateIP rec \<longrightarrow> rec' = rec\<lparr>LastSeen := now\<rparr>)
           \<and> (\<forall>k. k \<noteq> cid \<longrightarrow> RecordHeartbeat r now cid ip k = r k)
           \<and> RecordHeartbeat (RecordHeartbeat r now cid ip) now' cid ip
               = RecordHeartbeat r now' cid ip"
  using assms by (auto simp: RecordHeartbeat_def Let_def fun_eq_iff)

theorem RecordHeartbeat_frame_witness:
  "\<exists>rec'. RecordHeartbeat
       (Register NewRegistry 5 ''c1'' ''10.0.0.5'' ''1.0'') 9 ''c1'' ''10.0.0.5'' ''c1'' = Some rec'
     \<and> ID rec' = ''c1'' \<and> Version rec' = ''1.0'' \<and> LastSeen rec' = 9
     \<and> PrivateIP rec' = ''10.0.0.5''"
  using RecordHeartbeat_frame [of "Register NewRegistry 5 ''c1'' ''10.0.0.5'' ''1.0''" "''c1''"
      "\<lparr>ID = ''c1'', PrivateIP = ''10.0.0.5'', Version = ''1.0'', LastSeen = 5\<rparr>"
      9 "''10.0.0.5''" 9]
  by (simp add: Register_def NewRegistry_def newConnectorRecord_def Let_def)



section \<open>Arithmetic of instants and durations\<close>

lemma int64_id: "- (2 ^ 63) \<le> x \<Longrightarrow> x < 2 ^ 63 \<Longrightarrow> int64 x = x"
  unfolding int64_def by (simp add: signed_take_bit_int_eq_self)

lemma quo_nonneg: "0 \<le> a \<Longrightarrow> 0 < b \<Longrightarrow> quo a b = a div b"
  by (simp add: quo_def sgn_if)

lemma time_Sub_sign: "(time_Sub t u \<le> 0) = (t \<le> u)"
  by (auto simp: time_Sub_def maxDuration_def minDuration_def)

lemma time_Sub_less:
  "minDuration < d \<Longrightarrow> d \<le> maxDuration \<Longrightarrow> (time_Sub t u < d) = (t - u < d)"
  by (auto simp: time_Sub_def)

section \<open>Presence classification\<close>

lemma status_of_online: "(status_of now ls = ''ONLINE'') = (now - ls < 30 * Second)"
  by (simp add: status_of_def time_Sub_less minDuration_def maxDuration_def Second_def)

lemma status_of_offline: "(status_of now ls = ''OFFLINE'') = (\<not> now - ls < 30 * Second)"
  by (simp add: status_of_def time_Sub_less minDuration_def maxDuration_def Second_def)

lemma set_map_filter_dom:
  assumes "set keys = dom m"
  shows "set (List.map_filter m keys) = ran m"
  using assms by (force simp: List.map_filter_def ran_def dom_def image_iff)

lemma length_map_filter_dom:
  assumes "set keys \<subseteq> dom m"
  shows "length (List.map_filter m keys) = length keys"
  using assms by (induction keys) auto

lemma List_connectors_set:
  "set keys = dom reg \<Longrightarrow> set (List_connectors reg keys) = ran reg"
  by (simp add: List_connectors_def set_map_filter_dom)

lemma List_connectors_length:
  "distinct keys \<Longrightarrow> set keys = dom reg \<Longrightarrow> length (List_connectors reg keys) = card (dom reg)"
  by (metis List_connectors_def length_map_filter_dom length_sort distinct_card order_refl)

lemma List_tunnelers_set:
  "set keys = dom reg \<Longrightarrow> set (List_tunnelers reg keys) = ran reg"
  by (simp add: List_tunnelers_def set_map_filter_dom)

lemma List_tunnelers_length:
  "distinct keys \<Longrightarrow> set keys = dom reg \<Longrightarrow> length (List_tunnelers reg keys) = card (dom reg)"
  by (metis List_tunnelers_def length_map_filter_dom length_sort distinct_card order_refl)

text \<open>
  C7. Let \<open>keys\<close> and \<open>tkeys\<close> be the orders in which the two maps are iterated.
  For every record of the connector registry and every record of the tunneler status
  registry, the listing answers a GET with one entry for each stored record; the entry
  of the record carries the stored id, private address and version (id and connector id
  for a tunneler), and its status is ONLINE exactly when \<open>now - last_seen\<close> is below
  30 seconds and OFFLINE exactly when it is not. No record is dropped by being OFFLINE.
\<close>

theorem listing_status:
  assumes "distinct keys" "set keys = dom reg" "reg cid = Some rec"
    and "distinct tkeys" "set tkeys = dom treg" "treg tid = Some trec"
  shows "\<exists>resp tresp.
      handleListConnectors ''GET'' reg keys now = Inr resp
    \<and> length resp = card (dom reg)
    \<and> (\<exists>e. e \<in> set resp \<and> rc_ID e = ID rec \<and> rc_PrivateIP e = PrivateIP rec
           \<and> rc_Version e = Version rec
           \<and> (rc_Status e = ''ONLINE'') = (now - LastSeen rec < 30 * Second)
           \<and> (rc_Status e = ''OFFLINE'') = (\<not> now - LastSeen rec < 30 * Second))
    \<and> handleListTunnelers ''GET'' (Some treg) tkeys now = Inr tresp
    \<and> length tresp = card (dom treg)
    \<and> (\<exists>e. e \<in> set tresp \<and> rt_ID e = tun_ID trec \<and> rt_ConnectorID e = tun_ConnectorID trec
           \<and> (rt_Status e = ''ONLINE'') = (now - tun_LastSeen trec < 30 * Second)
           \<and> (rt_Status e = ''OFFLINE'') = (\<not> now - tun_LastSeen trec < 30 * Second))"
proof -
  have "rec \<in> set (List_connectors reg keys)"
    using assms(2,3) by (auto simp: List_connectors_set ran_def)
  then have c: "connector_entry now rec \<in> set (map (connector_entry now) (List_connectors reg keys))"
    by simp
  have "trec \<in> set (List_tunnelers treg tkeys)"
    using assms(5,6) by (auto simp: List_tunnelers_set ran_def)
  then have t: "tunneler_entry now trec \<in> set (map (tunneler_entry now) (List_tunnelers treg tkeys))"
    by simp
  show ?thesis
    apply (rule exI [of _ "map (connector_entry now) (List_connectors reg keys)"])
    apply (rule exI [of _ "map (tunneler_entry now) (List_tunnelers treg tkeys)"])
    apply (intro conjI)
         apply (simp add: handleListConnectors_def)
        apply (simp add: List_connectors_length assms)
       apply (rule exI [of _ "connector_entry now rec"])
       apply (simp only: c)
       apply (simp add: connector_entry_def status_of_online status_of_offline)
      apply (simp add: handleListTunnelers_def)
     apply (simp add: List_tunnelers_length assms)
    apply (rule exI [of _ "tunneler_entry now trec"])
    apply (simp only: t)
    apply (simp add: tunneler_entry_def status_of_online status_of_offline)
    done
qed

text \<open>
  A connector last seen at second 5 and a tunneler last seen at second 40, listed at
  second 50: the connector is OFFLINE and still listed, the tunneler is ONLINE.
\<close>

theorem listing_status_witness:
  "\<exists>resp tresp.
      handleListConnectors ''GET'' (Register NewRegistry (5 * Second) ''c1'' ''10.0.0.5'' ''1.0'')
        [''c1''] (50 * Second) = Inr resp
    \<and> length resp = 1
    \<and> (\<exists>e. e \<in> set resp \<and> rc_ID e = ''c1'' \<and> rc_PrivateIP e = ''10.0.0.5''
           \<and> rc_Version e = ''1.0'' \<and> rc_Status e = ''OFFLINE'')
    \<and> handleListTunnelers ''GET''
        (Some (Record NewTunnelerStatusRegistry (40 * Second) ''t1'' ''spiffe://td/tunneler/t1'' ''c1''))
        [''t1''] (50 * Second) = Inr tresp
    \<and> length tresp = 1
    \<and> (\<exists>e. e \<in> set tresp \<and> rt_ID e = ''t1'' \<and> rt_ConnectorID e = ''c1''
           \<and> rt_Status e = ''ONLINE'')"
  using listing_status [of "[''c1'']" "Register NewRegistry (5 * Second) ''c1'' ''10.0.0.5'' ''1.0''"
      "''c1''" "\<lparr>ID = ''c1'', PrivateIP = ''10.0.0.5'', Version = ''1.0'', LastSeen = 5 * Second\<rparr>"
      "[''t1'']"
      "Record NewTunnelerStatusRegistry (40 * Second) ''t1'' ''spiffe://td/tunneler/t1'' ''c1''"
      "''t1''"
      "\<lparr>tun_ID = ''t1'', tun_SPIFFEID = ''spiffe://td/tunneler/t1'', tun_ConnectorID = ''c1'',
        tun_LastSeen = 40 * Second\<rparr>"
      "50 * Second"]
  by (simp add: Register_def NewRegistry_def newConnectorRecord_def Record_def
      NewTunnelerStatusRegistry_def Let_def Second_def) blast

section \<open>Renewal schedule\<close>

lemma nextRenewal_expired:
  "notAfter \<le> now \<Longrightarrow> nextRenewal (\<lambda>_. now) notAfter totalTTL = now + 10 * Second"
  by (simp add: nextRenewal_def time_Sub_sign time_Add_def)

lemma nextRenewal_remaining_expired:
  "notAfter \<le> now \<Longrightarrow> nextRenewal_remaining (\<lambda>_. now) notAfter = now + 10 * Second"
  by (simp add: nextRenewal_remaining_def time_Sub_sign time_Add_def)

lemma nextRenewal_remaining_one_hour_left:
  "nextRenewal_remaining (\<lambda>_. 1000 * Second) (4600 * Second) = 3400 * Second
   \<and> spec_next_at (1000 * Second) (4600 * Second) (3600 * Second) = 3520 * Second"
  by (simp add: nextRenewal_remaining_def spec_next_at_def Let_def time_Sub_def time_Add_def
      time_Before_def maxDuration_def minDuration_def Minute_def Second_def int64_def quo_def
      signed_take_bit_int_eq_self)

lemma nextRenewal_pos:
  assumes "0 < totalTTL" "totalTTL \<le> maxDuration div 30"
  shows "nextRenewal (\<lambda>_. now) notAfter totalTTL = spec_next_at now notAfter totalTTL"
proof -
  define ra where "ra = (totalTTL * 30) div 100"
  have r: "int64 (totalTTL * 30) = totalTTL * 30"
    using assms by (intro int64_id) (auto simp: maxDuration_def)
  have b: "0 \<le> ra" "ra < 2 ^ 63"
    using assms by (auto simp: maxDuration_def ra_def)
  have q: "quo (int64 (totalTTL * 30)) 100 = ra"
    unfolding r ra_def using assms by (intro quo_nonneg) auto
  have n: "int64 (- ra) = - ra"
    using b by (intro int64_id) auto
  have spec: "spec_next_at now notAfter totalTTL = max (now + 10 * Second) (notAfter - ra)"
    unfolding spec_next_at_def ra_def ..
  show ?thesis
  proof (cases "notAfter \<le> now")
    case True
    then have "notAfter - ra \<le> now + 10 * Second"
      using b by (simp add: Second_def)
    with True show ?thesis
      unfolding spec by (simp add: nextRenewal_expired)
  next
    case False
    have "nextRenewal (\<lambda>_. now) notAfter totalTTL =
        (if notAfter - ra < now + 10 * Second then now + 10 * Second else notAfter - ra)"
      using False assms(1)
      by (simp add: nextRenewal_def Let_def time_Sub_sign q n time_Add_def time_Before_def)
    then show ?thesis unfolding spec by (simp add: max_def)
  qed
qed

lemma nextRenewal_nonpos:
  assumes "totalTTL \<le> 0" "now < notAfter" "notAfter - now \<le> maxDuration div 30"
  shows "nextRenewal (\<lambda>_. now) notAfter totalTTL = spec_next_at now notAfter (notAfter - now)"
proof -
  have s: "time_Sub notAfter now = notAfter - now"
    using assms by (auto simp: time_Sub_def maxDuration_def minDuration_def)
  have "nextRenewal (\<lambda>_. now) notAfter totalTTL = nextRenewal (\<lambda>_. now) notAfter (notAfter - now)"
    using assms by (simp add: nextRenewal_def Let_def s)
  also have "\<dots> = spec_next_at now notAfter (notAfter - now)"
    using assms by (intro nextRenewal_pos) auto
  finally show ?thesis .
qed

lemma nextRenewal_remaining_short:
  assumes "now < notAfter" "notAfter - now \<le> 5 * Minute + 30 * Second"
  shows "nextRenewal_remaining (\<lambda>_. now) notAfter = now + 30 * Second"
proof -
  have s: "time_Sub notAfter now = notAfter - now"
    using assms by (auto simp: time_Sub_def maxDuration_def minDuration_def Minute_def Second_def)
  have q: "quo (notAfter - now) 3 < 5 * Minute"
    using assms by (auto simp: quo_def Minute_def Second_def)
  have n: "int64 (- (5 * Minute)) = - (5 * Minute)"
    by (intro int64_id) (auto simp: Minute_def Second_def)
  show ?thesis
    using assms by (simp add: nextRenewal_remaining_def Let_def s q n time_Add_def time_Before_def)
qed

text \<open>
  C5. The scheduler of \<^verbatim>\<open>working-backend/connector/run/run.go\<close>, which takes the expiry
  alone, does not return \<open>max(now + 10s, not_after - 0.30 \<times> total_ttl)\<close>. For the leaf of
  a connector at the instant it is issued (five minutes left of a validity of six) it
  answers \<open>now + 30s\<close>, where the formula gives \<open>now + 192s\<close>; the scheduler with two
  arguments returns \<open>now + 192s\<close>.
\<close>

theorem nextRenewal_remaining_fresh_leaf:
  "nextRenewal_remaining (\<lambda>_. 1000 * Second) (1300 * Second) = 1030 * Second
   \<and> spec_next_at (1000 * Second) (1300 * Second) (360 * Second) = 1192 * Second
   \<and> nextRenewal (\<lambda>_. 1000 * Second) (1300 * Second) (360 * Second) = 1192 * Second"
  by (simp add: nextRenewal_remaining_def nextRenewal_def spec_next_at_def Let_def time_Sub_def
      time_Add_def time_Before_def maxDuration_def minDuration_def Minute_def Second_def int64_def
      quo_def signed_take_bit_int_eq_self)

section \<open>Tokens\<close>

lemma CreateToken_record:
  "fst (CreateToken H s (Inr raw) now io) =
     s\<lparr>tokens := (tokens s)(hashToken H (hex_EncodeToString raw) \<mapsto>
        \<lparr>Hash = hashToken H (hex_EncodeToString raw),
         ExpiresAt = (if ttl s > 0 then now + ttl s else now + 10 * 365 * 24 * Hour),
         Used = False, ConnectorID = []\<rparr>)\<rparr>"
  by (simp add: CreateToken_def Let_def time_Add_def split: option.splits)

lemma ConsumeToken_not_expired:
  assumes "tokens s (hashToken H token) = Some rec" "token \<noteq> []" "cid \<noteq> []"
    and "ExpiresAt rec = 0 \<or> now \<le> ExpiresAt rec"
  shows "ConsumeToken H s now io token cid =
     (s\<lparr>tokens := (tokens s)(hashToken H token \<mapsto> rec\<lparr>ConnectorID := cid\<rparr>)\<rparr>,
      if path s = [] then None else io)"
  using assms by (auto simp: ConsumeToken_def Let_def time_IsZero_def time_After_def saveLocked_def)

lemma hex_EncodeToString_empty: "(hex_EncodeToString raw = []) = (raw = [])"
  by (cases raw) simp_all

text \<open>
  C10. In the persistent token store, \<open>CreateToken\<close> stores under the hash of the new
  token a record whose expiry is the creation time plus the TTL of the store when that
  TTL is positive, and the creation time plus 10 \<times> 365 \<times> 24 hours when it is not.
  \<open>ConsumeToken\<close> accepts at every instant a token whose record has the zero time as
  expiry. A token of a store with a non-positive TTL is accepted at every instant up to
  those ten years after its creation.
\<close>

theorem CreateToken_expiry:
  "(\<exists>rec. tokens (fst (CreateToken H s (Inr raw) now io)) (hashToken H (hex_EncodeToString raw))
            = Some rec
         \<and> ExpiresAt rec = (if 0 < ttl s then now + ttl s else now + 10 * 365 * 24 * Hour))
   \<and> (tokens s (hashToken H token) = Some zrec \<and> ExpiresAt zrec = 0 \<and> token \<noteq> [] \<and> cid \<noteq> []
        \<longrightarrow> snd (ConsumeToken H s later None token cid) = None)
   \<and> (ttl s \<le> 0 \<and> raw \<noteq> [] \<and> cid \<noteq> [] \<and> later \<le> now + 10 * 365 * 24 * Hour
        \<longrightarrow> snd (ConsumeToken H (fst (CreateToken H s (Inr raw) now io)) later None
                  (hex_EncodeToString raw) cid) = None)"
proof (intro conjI impI)
  show "\<exists>rec. tokens (fst (CreateToken H s (Inr raw) now io)) (hashToken H (hex_EncodeToString raw))
            = Some rec
         \<and> ExpiresAt rec = (if 0 < ttl s then now + ttl s else now + 10 * 365 * 24 * Hour)"
    by (simp add: CreateToken_record)
next
  assume "tokens s (hashToken H token) = Some zrec \<and> ExpiresAt zrec = 0 \<and> token \<noteq> [] \<and> cid \<noteq> []"
  then show "snd (ConsumeToken H s later None token cid) = None"
    by (simp add: ConsumeToken_not_expired)
next
  assume a: "ttl s \<le> 0 \<and> raw \<noteq> [] \<and> cid \<noteq> [] \<and> later \<le> now + 10 * 365 * 24 * Hour"
  let ?s1 = "fst (CreateToken H s (Inr raw) now io)"
  let ?rec = "\<lparr>Hash = hashToken H (hex_EncodeToString raw),
         ExpiresAt = now + 10 * 365 * 24 * Hour, Used = False, ConnectorID = []\<rparr>"
  have "tokens ?s1 (hashToken H (hex_EncodeToString raw)) = Some ?rec"
    using a by (simp add: CreateToken_record)
  moreover have "hex_EncodeToString raw \<noteq> []"
    using a by (simp add: hex_EncodeToString_empty)
  ultimately show "snd (ConsumeToken H ?s1 later None (hex_EncodeToString raw) cid) = None"
    using a by (subst ConsumeToken_not_expired [where rec = ?rec]) simp_all
qed

text \<open>
  A store without TTL and without file, a token made of the bytes \<open>ab\<close> at instant 7:
  the expiry is ten years later, and the token is accepted nine years later. A store
  loaded from a file with a record of expiry zero: its token is accepted at any time, here
  a hundred years after the zero instant of the clock.
\<close>

theorem CreateToken_expiry_witness:
  "(\<exists>rec. tokens (fst (CreateToken (\<lambda>t. t) (NewTokenStore 0 [] None) (Inr ''ab'') 7 None))
              (hashToken (\<lambda>t. t) ''6162'') = Some rec
         \<and> ExpiresAt rec = 7 + 10 * 365 * 24 * Hour)
   \<and> snd (ConsumeToken (\<lambda>t. t) (fst (CreateToken (\<lambda>t. t) (NewTokenStore 0 [] None) (Inr ''ab'') 7 None))
            (9 * 365 * 24 * Hour) None ''6162'' ''c1'') = None
   \<and> snd (ConsumeToken (\<lambda>t. t)
            (NewTokenStore 0 ''tokens.json''
               (Some [''7a'' \<mapsto> \<lparr>Hash = ''7a'', ExpiresAt = 0, Used = False, ConnectorID = []\<rparr>]))
            (100 * 365 * 24 * Hour) None ''z'' ''c1'') = None"
  using CreateToken_expiry [where H = "\<lambda>t. t" and s = "NewTokenStore 0 [] None" and raw = "''ab''"
      and now = 7 and io = None and cid = "''c1''" and later = "9 * 365 * 24 * Hour"]
    CreateToken_expiry [where H = "\<lambda>t. t"
      and s = "NewTokenStore 0 ''tokens.json''
               (Some [''7a'' \<mapsto> \<lparr>Hash = ''7a'', ExpiresAt = 0, Used = False, ConnectorID = []\<rparr>])"
      and token = "''z''"
      and zrec = "\<lparr>Hash = ''7a'', ExpiresAt = 0, Used = False, ConnectorID = []\<rparr>"
      and cid = "''c1''" and later = "100 * 365 * 24 * Hour"]
  by (simp add: NewTokenStore_def hashToken_def Hour_def Minute_def Second_def hexdigit_def)

text \<open>
  C1, on the persistent store: \<open>ConsumeToken\<close> neither tests nor sets \<open>Used\<close>. A token
  created at instant 0 in a store with a TTL of ten minutes is consumed by \<open>c1\<close> at
  instant 1, and consumed again by \<open>c2\<close> at instant 2: the second call returns no error
  and binds the record to \<open>c2\<close>.
\<close>

theorem ConsumeToken_second_use_accepted:
  "snd (ConsumeToken H (fst (CreateToken H (NewTokenStore (10 * Minute) [] None) (Inr ''0123456789abcdef'') 0 None))
          1 None (hex_EncodeToString ''0123456789abcdef'') ''c1'') = None
   \<and> snd (ConsumeToken H
            (fst (ConsumeToken H (fst (CreateToken H (NewTokenStore (10 * Minute) [] None) (Inr ''0123456789abcdef'') 0 None))
                   1 None (hex_EncodeToString ''0123456789abcdef'') ''c1''))
            2 None (hex_EncodeToString ''0123456789abcdef'') ''c2'') = None
   \<and> map_option ConnectorID
        (tokens (fst (ConsumeToken H
            (fst (ConsumeToken H (fst (CreateToken H (NewTokenStore (10 * Minute) [] None) (Inr ''0123456789abcdef'') 0 None))
                   1 None (hex_EncodeToString ''0123456789abcdef'') ''c1''))
            2 None (hex_EncodeToString ''0123456789abcdef'') ''c2''))
          (hashToken H (hex_EncodeToString ''0123456789abcdef''))) = Some ''c2''"
  by (simp add: CreateToken_def ConsumeToken_def NewTokenStore_def saveLocked_def Let_def
      time_Add_def time_After_def time_IsZero_def Minute_def Second_def)

text \<open>
  In general: whenever a token has been consumed, consuming it again at the same instant
  for any other id succeeds and rebinds the record.
\<close>

lemma ConsumeToken_again:
  assumes "snd (ConsumeToken H s now io token cid) = None" "cid2 \<noteq> []"
  shows "snd (ConsumeToken H (fst (ConsumeToken H s now io token cid)) now io token cid2) = None
       \<and> map_option ConnectorID
           (tokens (fst (ConsumeToken H (fst (ConsumeToken H s now io token cid)) now io token cid2))
              (hashToken H token)) = Some cid2"
proof -
  from assms(1) obtain rec where r: "token \<noteq> []" "cid \<noteq> []" "tokens s (hashToken H token) = Some rec"
    "ExpiresAt rec = 0 \<or> now \<le> ExpiresAt rec"
    by (auto simp: ConsumeToken_def Let_def time_IsZero_def time_After_def
        split: if_splits option.splits)
  let ?s1 = "s\<lparr>tokens := (tokens s)(hashToken H token \<mapsto> rec\<lparr>ConnectorID := cid\<rparr>)\<rparr>"
  have f: "ConsumeToken H s now io token cid = (?s1, if path s = [] then None else io)"
    by (rule ConsumeToken_not_expired [OF r(3) r(1) r(2) r(4)])
  with assms(1) have sv: "(if path s = [] then None else io) = None" by simp
  have g: "ConsumeToken H ?s1 now io token cid2 =
      (?s1\<lparr>tokens := (tokens ?s1)(hashToken H token \<mapsto> (rec\<lparr>ConnectorID := cid\<rparr>)\<lparr>ConnectorID := cid2\<rparr>)\<rparr>,
       if path ?s1 = [] then None else io)"
    by (rule ConsumeToken_not_expired) (use r(1,4) assms(2) in simp_all)
  show ?thesis
    unfolding f fst_conv g using sv by simp
qed

text \<open>
  The same at the level of the service: after the connector \<open>c1\<close> has enrolled with the
  token, the connector \<open>c2\<close> enrolls with it too.
\<close>

lemma EnrollConnector_token_reuse:
  "(\<exists>resp. snd (EnrollConnector plain_lib demo_server demo_env (demo_request ''c1'' ''10.0.0.5''))
       = Inr resp)
   \<and> (\<exists>resp. snd (EnrollConnector plain_lib
            (fst (EnrollConnector plain_lib demo_server demo_env (demo_request ''c1'' ''10.0.0.5'')))
            demo_env (demo_request ''c2'' ''10.0.0.6''))
       = Inr resp)"
proof -
  have "snd (EnrollConnector plain_lib demo_server demo_env (demo_request ''c1'' ''10.0.0.5''))
     = Inr (projr (snd (EnrollConnector plain_lib demo_server demo_env (demo_request ''c1'' ''10.0.0.5''))))"
    by code_simp
  moreover have "snd (EnrollConnector plain_lib
            (fst (EnrollConnector plain_lib demo_server demo_env (demo_request ''c1'' ''10.0.0.5'')))
            demo_env (demo_request ''c2'' ''10.0.0.6''))
     = Inr (projr (snd (EnrollConnector plain_lib
            (fst (EnrollConnector plain_lib demo_server demo_env (demo_request ''c1'' ''10.0.0.5'')))
            demo_env (demo_request ''c2'' ''10.0.0.6''))))"
    by code_simp
  ultimately show ?thesis by (intro conjI exI)
qed

text \<open>
  The earlier in-memory store does what the claim says: once a token has been consumed,
  every later call with that token returns an error and leaves the record bound to the
  first consumer.
\<close>

lemma MemConsumeToken_single_use:
  assumes "snd (MemConsumeToken H s now token cid) = None"
  shows "snd (MemConsumeToken H (fst (MemConsumeToken H s now token cid)) later token cid2) \<noteq> None
       \<and> fst (MemConsumeToken H (fst (MemConsumeToken H s now token cid)) later token cid2)
           = fst (MemConsumeToken H s now token cid)
       \<and> map_option ConnectorID
           (mem_tokens (fst (MemConsumeToken H s now token cid)) (hashToken H token)) = Some cid"
  using assms
  by (auto simp: MemConsumeToken_def split: if_splits option.splits)

section \<open>Issuing and enrolling\<close>

subsection \<open>Splitting strings\<close>

lemma Split_ne: "Split s sep \<noteq> []"
  by (induction s) (auto split: list.splits)

lemma Split_no_sep: "sep \<notin> set s \<Longrightarrow> Split s sep = [s]"
  by (induction s) auto

lemma Split_append_sep: "sep \<notin> set a \<Longrightarrow> Split (a @ sep # b) sep = a # Split b sep"
  by (induction a) auto

lemma Split_covers: "c \<in> set s \<Longrightarrow> c \<noteq> sep \<Longrightarrow> \<exists>l \<in> set (Split s sep). c \<in> set l"
  by (induction s) (auto split: list.splits simp: Split_ne)

lemma label_char_not_slash: "label_char c \<Longrightarrow> c \<noteq> CHR ''/''"
  by (auto simp: label_char_def)

lemma dns_name_no_slash: "dns_name h \<Longrightarrow> CHR ''/'' \<notin> set h"
proof
  assume d: "dns_name h" and "CHR ''/'' \<in> set h"
  then obtain l where "l \<in> set (Split h (CHR ''.''))" "CHR ''/'' \<in> set l"
    using Split_covers [of "CHR ''/''" h "CHR ''.''"] by auto
  with d show False
    by (auto simp: dns_name_def list_all_iff dest: label_char_not_slash)
qed

lemma id_char_not_slash: "id_char c \<Longrightarrow> c \<noteq> CHR ''/''"
  by (auto simp: id_char_def)

lemma validID_no_slash: "validID s \<Longrightarrow> CHR ''/'' \<notin> set s"
  by (auto simp: validID_def list_all_iff dest: id_char_not_slash)

lemma validID_plain_path: "validID r \<Longrightarrow> validID i \<Longrightarrow> plain_path (''/'' @ r @ ''/'' @ i)"
  by (auto simp: plain_path_def validID_def list_all_iff)

lemma connector_plain_path: "validID i \<Longrightarrow> plain_path (''/connector/'' @ i)"
  by (auto simp: plain_path_def validID_def list_all_iff id_char_def)

lemma tunneler_plain_path: "validID i \<Longrightarrow> plain_path (''/tunneler/'' @ i)"
  by (auto simp: plain_path_def validID_def list_all_iff id_char_def)

lemma two_segments:
  "CHR ''/'' \<notin> set r \<Longrightarrow> CHR ''/'' \<notin> set i \<Longrightarrow>
     Split (TrimPrefix (''/'' @ r @ ''/'' @ i) ''/'') (CHR ''/'') = [r, i]"
  by (simp add: TrimPrefix_def Split_append_sep Split_no_sep)

subsection \<open>The library of the examples\<close>

lemma plain_url_Parse_ok:
  assumes "dns_name h" "plain_path p"
  shows "plain_url_Parse (''spiffe://'' @ h @ p) = Inr \<lparr>Scheme = ''spiffe'', Host = h, Path = p\<rparr>"
proof -
  obtain q where p: "p = CHR ''/'' # q"
    using assms(2) by (cases p) (auto simp: plain_path_def)
  have h: "\<forall>x\<in>set h. x \<noteq> CHR ''/''"
    using dns_name_no_slash [OF assms(1)] by auto
  have "takeWhile (\<lambda>c. c \<noteq> CHR ''/'') (h @ p) = h"
    using h by (simp add: p)
  moreover have "dropWhile (\<lambda>c. c \<noteq> CHR ''/'') (h @ p) = p"
    using h by (simp add: p)
  ultimately show ?thesis
    by (simp add: plain_url_Parse_def)
qed

lemma plain_lib_ok: "url_library_ok plain_lib"
  unfolding url_library_ok_def
proof (intro allI impI conjI)
  fix h p
  assume "dns_name h \<and> plain_path p"
  then show "url_Parse plain_lib (''spiffe://'' @ h @ p)
      = Inr \<lparr>Scheme = ''spiffe'', Host = h, Path = p\<rparr>"
    using plain_url_Parse_ok [of h p] by (simp add: plain_lib_def)
  show "url_String plain_lib \<lparr>Scheme = ''spiffe'', Host = h, Path = p\<rparr> = ''spiffe://'' @ h @ p"
    by (simp add: plain_lib_def plain_url_String_def)
qed

lemma url_library_okD:
  assumes "url_library_ok L" "dns_name h" "plain_path p"
  shows "url_Parse L (''spiffe://'' @ h @ p) = Inr \<lparr>Scheme = ''spiffe'', Host = h, Path = p\<rparr>"
    and "url_String L \<lparr>Scheme = ''spiffe'', Host = h, Path = p\<rparr> = ''spiffe://'' @ h @ p"
  using assms unfolding url_library_ok_def by blast+

subsection \<open>What a successful call went through\<close>

lemma leaf_fields:
  "SerialNumber (x509_encoded (leafTemplate n now d uri dns ips)) = n"
  "NotBefore (x509_encoded (leafTemplate n now d uri dns ips)) = whole_seconds (now - Minute)"
  "NotAfter (x509_encoded (leafTemplate n now d uri dns ips)) = whole_seconds (now + d)"
  "IsCA (x509_encoded (leafTemplate n now d uri dns ips)) = False"
  "URIs (x509_encoded (leafTemplate n now d uri dns ips)) = [uri]"
  "DNSNames (x509_encoded (leafTemplate n now d uri dns ips)) = dns"
  "IPAddresses (x509_encoded (leafTemplate n now d uri dns ips)) = ips"
  by (simp_all add: x509_encoded_def leafTemplate_def time_Add_def)

lemma whole_seconds_bounds: "whole_seconds t \<le> t \<and> t < whole_seconds t + Second"
  by (simp add: whole_seconds_def Second_def)

lemma whole_seconds_id: "t mod Second = 0 \<Longrightarrow> whole_seconds t = t"
  by (simp add: whole_seconds_def)

lemma IssueWorkloadCert_Inr:
  assumes "IssueWorkloadCert L ca sid pub d dns ips sn now = Inr leaf"
  shows "\<exists>uri n. url_Parse L sid = Inr uri \<and> Scheme uri = ''spiffe'' \<and> 0 < d \<and> sn = Inr n
           \<and> leaf = x509_encoded (leafTemplate n now d uri dns ips)"
proof (cases ca)
  case None
  with assms show ?thesis by (simp add: IssueWorkloadCert_def)
next
  case (Some c)
  show ?thesis
  proof (cases "Cert c")
    case None
    with Some assms show ?thesis by (simp add: IssueWorkloadCert_def)
  next
    case cc: (Some caCert)
    from assms Some cc have k: "Key c \<noteq> None" and d: "0 < d"
      by (auto simp: IssueWorkloadCert_def split: if_splits)
    show ?thesis
    proof (cases "url_Parse L sid")
      case (Inl e)
      with assms Some cc k d show ?thesis by (simp add: IssueWorkloadCert_def)
    next
      case (Inr uri)
      from assms Some cc k d Inr have sch: "Scheme uri = ''spiffe''"
        by (auto simp: IssueWorkloadCert_def split: if_splits)
      show ?thesis
      proof (cases sn)
        case (Inl e)
        with assms Some cc k d Inr sch show ?thesis by (simp add: IssueWorkloadCert_def)
      next
        case n: (Inr n)
        with assms Some cc k d Inr sch show ?thesis
          by (simp add: IssueWorkloadCert_def Let_def split: option.splits)
      qed
    qed
  qed
qed

lemma IssueWorkloadCert_ttl:
  "d \<le> 0 \<Longrightarrow> \<exists>e. IssueWorkloadCert L ca sid pub d dns ips sn now = Inl e"
  by (auto simp: IssueWorkloadCert_def split: option.splits)

lemma IssueWorkloadCert_signed:
  assumes "ca = Some c" "Cert c = Some caCert" "Key c = Some k" "0 < d"
    and "url_Parse L sid = Inr uri" "Scheme uri = ''spiffe''" "sn = Inr n"
    and "x509_CreateCertificate L (leafTemplate n now d uri dns ips) caCert pub = None"
  shows "IssueWorkloadCert L ca sid pub d dns ips sn now =
           Inr (x509_encoded (leafTemplate n now d uri dns ips))"
  using assms by (simp add: IssueWorkloadCert_def Let_def)

lemma EnrollConnector_Inr:
  assumes "snd (EnrollConnector L s env req) = Inr resp"
  shows "validID (GetId req) \<and> GetPrivateIp req \<noteq> [] \<and> GetVersion req \<noteq> []
       \<and> CaCertificate resp = CAPEM s
       \<and> (\<exists>pub. parsePublicKey L (GetPublicKey req) = Inr pub
            \<and> IssueWorkloadCert L (CA s) (''spiffe://'' @ TrustDomain s @ ''/connector/'' @ GetId req)
                 pub (5 * Minute) [] (parse_ip_list L (GetPrivateIp req)) (serial env) (issue_now env)
               = Inr (Certificate resp))"
proof -
  have v: "validID (GetId req)" "GetPrivateIp req \<noteq> []" "GetVersion req \<noteq> []"
    using assms by (auto simp: EnrollConnector_def split: if_splits)
  obtain pub where pub: "parsePublicKey L (GetPublicKey req) = Inr pub"
    using assms v by (cases "parsePublicKey L (GetPublicKey req)") (auto simp: EnrollConnector_def)
  obtain s1 where tok: "authorizeConnectorToken L s env (GetToken req) (GetId req) = (s1, None)"
    using assms v pub
    by (cases "authorizeConnectorToken L s env (GetToken req) (GetId req)")
       (auto simp: EnrollConnector_def split: option.splits)
  show ?thesis
  proof (cases "IssueWorkloadCert L (CA s) (''spiffe://'' @ TrustDomain s @ ''/connector/'' @ GetId req)
                 pub (5 * Minute) [] (parse_ip_list L (GetPrivateIp req)) (serial env) (issue_now env)")
    case (Inl e)
    with assms v pub tok show ?thesis by (simp add: EnrollConnector_def Let_def)
  next
    case (Inr leaf)
    with assms v pub tok show ?thesis by (auto simp: EnrollConnector_def Let_def)
  qed
qed

lemma EnrollTunneler_Inr:
  assumes "snd (EnrollTunneler L s env req) = Inr resp"
  shows "validID (GetId req) \<and> GetToken req \<noteq> []
       \<and> CaCertificate resp = CAPEM s
       \<and> (\<exists>pub. parsePublicKey L (GetPublicKey req) = Inr pub
            \<and> IssueWorkloadCert L (CA s) (''spiffe://'' @ TrustDomain s @ ''/tunneler/'' @ GetId req)
                 pub (30 * Minute) [] [] (serial env) (issue_now env)
               = Inr (Certificate resp))"
proof -
  have v: "validID (GetId req)" "GetToken req \<noteq> []"
    using assms by (auto simp: EnrollTunneler_def split: if_splits)
  obtain pub where pub: "parsePublicKey L (GetPublicKey req) = Inr pub"
    using assms v by (cases "parsePublicKey L (GetPublicKey req)") (auto simp: EnrollTunneler_def)
  obtain s1 where tok: "authorizeConnectorToken L s env (GetToken req) (GetId req) = (s1, None)"
    using assms v pub
    by (cases "authorizeConnectorToken L s env (GetToken req) (GetId req)")
       (auto simp: EnrollTunneler_def split: option.splits)
  show ?thesis
  proof (cases "IssueWorkloadCert L (CA s) (''spiffe://'' @ TrustDomain s @ ''/tunneler/'' @ GetId req)
                 pub (30 * Minute) [] [] (serial env) (issue_now env)")
    case (Inl e)
    with assms v pub tok show ?thesis by (simp add: EnrollTunneler_def Let_def)
  next
    case (Inr leaf)
    with assms v pub tok show ?thesis by (auto simp: EnrollTunneler_def Let_def)
  qed
qed

lemma Renew_Inr:
  assumes "Renew L s env ctx req = Inr resp"
  shows "validID (GetId req) \<and> CaCertificate resp = CAPEM s
       \<and> (\<exists>pub role ips. parsePublicKey L (GetPublicKey req) = Inr pub
            \<and> identityFromContext s ctx = Inr (role, GetId req)
            \<and> IssueWorkloadCert L (CA s) (''spiffe://'' @ TrustDomain s @ ''/'' @ role @ ''/'' @ GetId req)
                 pub (if role = ''connector'' then 5 * Minute else 30 * Minute) [] ips
                 (serial env) (issue_now env)
               = Inr (Certificate resp))"
proof -
  have v: "validID (GetId req)"
    using assms by (auto simp: Renew_def split: if_splits)
  obtain pub where pub: "parsePublicKey L (GetPublicKey req) = Inr pub"
    using assms v by (cases "parsePublicKey L (GetPublicKey req)") (auto simp: Renew_def)
  obtain role i where idn: "identityFromContext s ctx = Inr (role, i)"
    using assms v pub by (cases "identityFromContext s ctx") (auto simp: Renew_def)
  have i: "i = GetId req"
    using assms v pub idn by (auto simp: Renew_def split: if_splits)
  define ips where "ips =
     (if role = ''connector'' then
        (case Registry s of None \<Rightarrow> []
         | Some reg \<Rightarrow> (case Get reg (GetId req) of None \<Rightarrow> []
                         | Some rec \<Rightarrow> parse_ip_list L (PrivateIP rec)))
      else [])"
  show ?thesis
  proof (cases "IssueWorkloadCert L (CA s) (''spiffe://'' @ TrustDomain s @ ''/'' @ role @ ''/'' @ GetId req)
                 pub (if role = ''connector'' then 5 * Minute else 30 * Minute) [] ips
                 (serial env) (issue_now env)")
    case (Inl e)
    with assms v pub idn i show ?thesis
      by (simp add: Renew_def Let_def ips_def)
  next
    case (Inr leaf)
    with assms v pub idn i have "resp = \<lparr>Certificate = leaf, CaCertificate = CAPEM s\<rparr>"
      by (simp add: Renew_def Let_def ips_def)
    with Inr v pub idn i show ?thesis by auto
  qed
qed

lemma identityFromContext_Inr:
  "identityFromContext s ctx = Inr (role, i) \<Longrightarrow>
     \<exists>sid. spiffe_id ctx = Some sid \<and> spiffe_role ctx = Some role
       \<and> i = TrimPrefix sid (''spiffe://'' @ TrustDomain s @ ''/'' @ role @ ''/'')
       \<and> i \<noteq> [] \<and> CHR ''/'' \<notin> set i"
  by (auto simp: identityFromContext_def Let_def Contains_def split: option.splits if_splits)

lemma leaf_of_issue:
  assumes ok: "url_library_ok L" and td: "dns_name td" and r: "validID r" and i: "validID i"
    and iss: "IssueWorkloadCert L ca (''spiffe://'' @ td @ ''/'' @ r @ ''/'' @ i) pub d dns ips sn now = Inr leaf"
  shows "URIs leaf = [\<lparr>Scheme = ''spiffe'', Host = td, Path = ''/'' @ r @ ''/'' @ i\<rparr>]
       \<and> \<not> IsCA leaf \<and> NotBefore leaf = whole_seconds (now - Minute) \<and> NotAfter leaf = whole_seconds (now + d)
       \<and> IPAddresses leaf = ips"
proof -
  have p: "plain_path (''/'' @ r @ ''/'' @ i)"
    using r i by (rule validID_plain_path)
  have "url_Parse L (''spiffe://'' @ td @ (''/'' @ r @ ''/'' @ i))
      = Inr \<lparr>Scheme = ''spiffe'', Host = td, Path = ''/'' @ r @ ''/'' @ i\<rparr>"
    using ok td p by (rule url_library_okD)
  then have "url_Parse L (''spiffe://'' @ td @ ''/'' @ r @ ''/'' @ i)
      = Inr \<lparr>Scheme = ''spiffe'', Host = td, Path = ''/'' @ r @ ''/'' @ i\<rparr>"
    by simp
  with IssueWorkloadCert_Inr [OF iss] show ?thesis by (auto simp: leaf_fields)
qed

lemma validID_connector: "validID ''connector''"
  by (simp add: validID_def id_char_def)

lemma validID_tunneler: "validID ''tunneler''"
  by (simp add: validID_def id_char_def)

lemma issue_shape:
  assumes "IssueWorkloadCert L ca sid pub d dns ips sn now = Inr leaf"
  shows "(\<exists>uri. URIs leaf = [uri] \<and> Scheme uri = ''spiffe'') \<and> \<not> IsCA leaf
      \<and> NotBefore leaf = whole_seconds (now - Minute) \<and> NotAfter leaf = whole_seconds (now + d) \<and> 0 < d"
  using IssueWorkloadCert_Inr [OF assms] by (auto simp: leaf_fields)

lemma EnrollConnector_leaf:
  assumes "url_library_ok L" "dns_name (TrustDomain s)" "snd (EnrollConnector L s env req) = Inr resp"
  shows "URIs (Certificate resp)
           = [\<lparr>Scheme = ''spiffe'', Host = TrustDomain s, Path = ''/connector/'' @ GetId req\<rparr>]
       \<and> \<not> IsCA (Certificate resp)
       \<and> NotBefore (Certificate resp) = whole_seconds (issue_now env - Minute)
       \<and> NotAfter (Certificate resp) = whole_seconds (issue_now env + 5 * Minute)
       \<and> IPAddresses (Certificate resp) = parse_ip_list L (GetPrivateIp req)
       \<and> validID (GetId req)"
proof -
  obtain pub where v: "validID (GetId req)"
    and iss: "IssueWorkloadCert L (CA s) (''spiffe://'' @ TrustDomain s @ ''/'' @ ''connector'' @ ''/'' @ GetId req)
        pub (5 * Minute) [] (parse_ip_list L (GetPrivateIp req)) (serial env) (issue_now env)
      = Inr (Certificate resp)"
    using EnrollConnector_Inr [OF assms(3)] by auto
  from leaf_of_issue [OF assms(1,2) validID_connector v iss] v show ?thesis by simp
qed

lemma EnrollTunneler_leaf:
  assumes "url_library_ok L" "dns_name (TrustDomain s)" "snd (EnrollTunneler L s env req) = Inr resp"
  shows "URIs (Certificate resp)
           = [\<lparr>Scheme = ''spiffe'', Host = TrustDomain s, Path = ''/tunneler/'' @ GetId req\<rparr>]
       \<and> \<not> IsCA (Certificate resp)
       \<and> NotBefore (Certificate resp) = whole_seconds (issue_now env - Minute)
       \<and> NotAfter (Certificate resp) = whole_seconds (issue_now env + 30 * Minute)
       \<and> validID (GetId req)"
proof -
  obtain pub where v: "validID (GetId req)"
    and iss: "IssueWorkloadCert L (CA s) (''spiffe://'' @ TrustDomain s @ ''/'' @ ''tunneler'' @ ''/'' @ GetId req)
        pub (30 * Minute) [] [] (serial env) (issue_now env)
      = Inr (Certificate resp)"
    using EnrollTunneler_Inr [OF assms(3)] by auto
  from leaf_of_issue [OF assms(1,2) validID_tunneler v iss] v show ?thesis by simp
qed

lemma Renew_leaf:
  assumes "url_library_ok L" "dns_name (TrustDomain s)" "spiffe_role ctx = Some role" "validID role"
    and "Renew L s env ctx req = Inr resp"
  shows "URIs (Certificate resp)
           = [\<lparr>Scheme = ''spiffe'', Host = TrustDomain s, Path = ''/'' @ role @ ''/'' @ GetId req\<rparr>]
       \<and> \<not> IsCA (Certificate resp)
       \<and> NotBefore (Certificate resp) = whole_seconds (issue_now env - Minute)
       \<and> NotAfter (Certificate resp)
            = whole_seconds (issue_now env + (if role = ''connector'' then 5 * Minute else 30 * Minute))
       \<and> validID (GetId req)"
proof -
  obtain pub role' ips where v: "validID (GetId req)"
    and idn: "identityFromContext s ctx = Inr (role', GetId req)"
    and iss: "IssueWorkloadCert L (CA s) (''spiffe://'' @ TrustDomain s @ ''/'' @ role' @ ''/'' @ GetId req)
        pub (if role' = ''connector'' then 5 * Minute else 30 * Minute) [] ips (serial env) (issue_now env)
      = Inr (Certificate resp)"
    using Renew_Inr [OF assms(5)] by auto
  from identityFromContext_Inr [OF idn] assms(3) have r: "role' = role" by auto
  from leaf_of_issue [OF assms(1,2,4) v iss [unfolded r]] v show ?thesis by simp
qed

text \<open>
  C3, as the claim states it, fails on the validity. A certificate issued half a second
  after second 61 for five minutes is valid from second 1 to second 361: half a second
  before the minute before issuance, and half a second before issuance plus the TTL.
\<close>

theorem issued_leaf_validity_counterexample:
  "\<exists>leaf. IssueWorkloadCert plain_lib (Some demo_ca) ''spiffe://mycorp.internal/connector/c1''
             ''key'' (5 * Minute) [] [] (Inr 42) 61500000000 = Inr leaf
      \<and> NotBefore leaf = 1 * Second \<and> NotBefore leaf \<noteq> 61500000000 - Minute
      \<and> NotAfter leaf = 361 * Second \<and> NotAfter leaf \<noteq> 61500000000 + 5 * Minute"
proof -
  have p: "url_Parse plain_lib ''spiffe://mycorp.internal/connector/c1''
      = Inr \<lparr>Scheme = ''spiffe'', Host = ''mycorp.internal'', Path = ''/connector/c1''\<rparr>"
    by code_simp
  have sg: "x509_CreateCertificate plain_lib
      (leafTemplate 42 61500000000 (5 * Minute)
         \<lparr>Scheme = ''spiffe'', Host = ''mycorp.internal'', Path = ''/connector/c1''\<rparr> [] [])
      (the (Cert demo_ca)) ''key'' = None"
    by code_simp
  have "IssueWorkloadCert plain_lib (Some demo_ca) ''spiffe://mycorp.internal/connector/c1''
             ''key'' (5 * Minute) [] [] (Inr 42) 61500000000
      = Inr (x509_encoded (leafTemplate 42 61500000000 (5 * Minute)
               \<lparr>Scheme = ''spiffe'', Host = ''mycorp.internal'', Path = ''/connector/c1''\<rparr> [] []))"
    using p sg by (intro IssueWorkloadCert_signed [where c = demo_ca and k = "''ca-key''"])
      (simp_all add: demo_ca_def Minute_def Second_def)
  then show ?thesis
    by (simp add: leaf_fields whole_seconds_def Minute_def Second_def)
qed

text \<open>
  C3, amended. A certificate that \<open>IssueWorkloadCert\<close> issues has exactly one URI SAN,
  of scheme \<open>spiffe\<close>, is no CA, is valid from the whole second at or before one minute
  before the instant of issuance to the whole second at or before that instant plus the
  TTL, and the TTL is positive; for a TTL that is zero or negative nothing is issued. When the library parses plain SPIFFE URLs componentwise and the
  trust domain is a DNS-like name, the leaf of a successful \<open>EnrollConnector\<close>,
  \<open>EnrollTunneler\<close> or \<open>Renew\<close> (for a role that the interceptor published and that is
  made of the characters of an id) has the trust domain as host of that URI and a path
  of exactly the two segments role and id, with a TTL of 5 minutes for a connector and
  30 minutes for a tunneler.
\<close>

theorem issued_leaf_shape:
  "(IssueWorkloadCert L ca sid pub d dns ips sn now = Inr leaf \<longrightarrow>
      (\<exists>uri. URIs leaf = [uri] \<and> Scheme uri = ''spiffe'') \<and> \<not> IsCA leaf
      \<and> NotBefore leaf = whole_seconds (now - Minute) \<and> NotAfter leaf = whole_seconds (now + d) \<and> 0 < d)
   \<and> (d \<le> 0 \<longrightarrow> (\<exists>e. IssueWorkloadCert L ca sid pub d dns ips sn now = Inl e))
   \<and> (url_library_ok L \<and> dns_name (TrustDomain s) \<and> snd (EnrollConnector L s env req) = Inr resp \<longrightarrow>
        (\<exists>uri. URIs (Certificate resp) = [uri] \<and> Scheme uri = ''spiffe'' \<and> Host uri = TrustDomain s
           \<and> Split (TrimPrefix (Path uri) ''/'') (CHR ''/'') = [''connector'', GetId req])
        \<and> \<not> IsCA (Certificate resp)
        \<and> NotBefore (Certificate resp) = whole_seconds (issue_now env - Minute)
        \<and> NotAfter (Certificate resp) = whole_seconds (issue_now env + 5 * Minute))
   \<and> (url_library_ok L \<and> dns_name (TrustDomain s) \<and> snd (EnrollTunneler L s env req) = Inr resp \<longrightarrow>
        (\<exists>uri. URIs (Certificate resp) = [uri] \<and> Scheme uri = ''spiffe'' \<and> Host uri = TrustDomain s
           \<and> Split (TrimPrefix (Path uri) ''/'') (CHR ''/'') = [''tunneler'', GetId req])
        \<and> \<not> IsCA (Certificate resp)
        \<and> NotBefore (Certificate resp) = whole_seconds (issue_now env - Minute)
        \<and> NotAfter (Certificate resp) = whole_seconds (issue_now env + 30 * Minute))
   \<and> (url_library_ok L \<and> dns_name (TrustDomain s) \<and> spiffe_role ctx = Some role \<and> validID role
        \<and> Renew L s env ctx req = Inr resp \<longrightarrow>
        (\<exists>uri. URIs (Certificate resp) = [uri] \<and> Scheme uri = ''spiffe'' \<and> Host uri = TrustDomain s
           \<and> Split (TrimPrefix (Path uri) ''/'') (CHR ''/'') = [role, GetId req])
        \<and> \<not> IsCA (Certificate resp)
        \<and> NotBefore (Certificate resp) = whole_seconds (issue_now env - Minute)
        \<and> NotAfter (Certificate resp)
            = whole_seconds (issue_now env + (if role = ''connector'' then 5 * Minute else 30 * Minute)))"
proof -
  have c1: "IssueWorkloadCert L ca sid pub d dns ips sn now = Inr leaf \<longrightarrow>
      (\<exists>uri. URIs leaf = [uri] \<and> Scheme uri = ''spiffe'') \<and> \<not> IsCA leaf
      \<and> NotBefore leaf = whole_seconds (now - Minute) \<and> NotAfter leaf = whole_seconds (now + d) \<and> 0 < d"
    using issue_shape [of L ca sid pub d dns ips sn now leaf] by blast
  have c2: "d \<le> 0 \<longrightarrow> (\<exists>e. IssueWorkloadCert L ca sid pub d dns ips sn now = Inl e)"
    using IssueWorkloadCert_ttl [of d L ca sid pub dns ips sn now] by blast
  have c3: "url_library_ok L \<and> dns_name (TrustDomain s) \<and> snd (EnrollConnector L s env req) = Inr resp \<longrightarrow>
        (\<exists>uri. URIs (Certificate resp) = [uri] \<and> Scheme uri = ''spiffe'' \<and> Host uri = TrustDomain s
           \<and> Split (TrimPrefix (Path uri) ''/'') (CHR ''/'') = [''connector'', GetId req])
        \<and> \<not> IsCA (Certificate resp)
        \<and> NotBefore (Certificate resp) = whole_seconds (issue_now env - Minute)
        \<and> NotAfter (Certificate resp) = whole_seconds (issue_now env + 5 * Minute)"
  proof
    assume a: "url_library_ok L \<and> dns_name (TrustDomain s) \<and> snd (EnrollConnector L s env req) = Inr resp"
    then have l: "URIs (Certificate resp)
           = [\<lparr>Scheme = ''spiffe'', Host = TrustDomain s, Path = ''/connector/'' @ GetId req\<rparr>]
       \<and> \<not> IsCA (Certificate resp)
       \<and> NotBefore (Certificate resp) = whole_seconds (issue_now env - Minute)
       \<and> NotAfter (Certificate resp) = whole_seconds (issue_now env + 5 * Minute)
       \<and> validID (GetId req)"
      using EnrollConnector_leaf [of L s env req resp] by blast
    then have "Split (TrimPrefix (''/'' @ ''connector'' @ ''/'' @ GetId req) ''/'') (CHR ''/'')
        = [''connector'', GetId req]"
      by (intro two_segments validID_no_slash validID_connector) simp
    with l show "(\<exists>uri. URIs (Certificate resp) = [uri] \<and> Scheme uri = ''spiffe'' \<and> Host uri = TrustDomain s
           \<and> Split (TrimPrefix (Path uri) ''/'') (CHR ''/'') = [''connector'', GetId req])
        \<and> \<not> IsCA (Certificate resp)
        \<and> NotBefore (Certificate resp) = whole_seconds (issue_now env - Minute)
        \<and> NotAfter (Certificate resp) = whole_seconds (issue_now env + 5 * Minute)"
      by simp
  qed
  have c4: "url_library_ok L \<and> dns_name (TrustDomain s) \<and> snd (EnrollTunneler L s env req) = Inr resp \<longrightarrow>
        (\<exists>uri. URIs (Certificate resp) = [uri] \<and> Scheme uri = ''spiffe'' \<and> Host uri = TrustDomain s
           \<and> Split (TrimPrefix (Path uri) ''/'') (CHR ''/'') = [''tunneler'', GetId req])
        \<and> \<not> IsCA (Certificate resp)
        \<and> NotBefore (Certificate resp) = whole_seconds (issue_now env - Minute)
        \<and> NotAfter (Certificate resp) = whole_seconds (issue_now env + 30 * Minute)"
  proof
    assume a: "url_library_ok L \<and> dns_name (TrustDomain s) \<and> snd (EnrollTunneler L s env req) = Inr resp"
    then have l: "URIs (Certificate resp)
           = [\<lparr>Scheme = ''spiffe'', Host = TrustDomain s, Path = ''/tunneler/'' @ GetId req\<rparr>]
       \<and> \<not> IsCA (Certificate resp)
       \<and> NotBefore (Certificate resp) = whole_seconds (issue_now env - Minute)
       \<and> NotAfter (Certificate resp) = whole_seconds (issue_now env + 30 * Minute)
       \<and> validID (GetId req)"
      using EnrollTunneler_leaf [of L s env req resp] by blast
    then have "Split (TrimPrefix (''/'' @ ''tunneler'' @ ''/'' @ GetId req) ''/'') (CHR ''/'')
        = [''tunneler'', GetId req]"
      by (intro two_segments validID_no_slash validID_tunneler) simp
    with l show "(\<exists>uri. URIs (Certificate resp) = [uri] \<and> Scheme uri = ''spiffe'' \<and> Host uri = TrustDomain s
           \<and> Split (TrimPrefix (Path uri) ''/'') (CHR ''/'') = [''tunneler'', GetId req])
        \<and> \<not> IsCA (Certificate resp)
        \<and> NotBefore (Certificate resp) = whole_seconds (issue_now env - Minute)
        \<and> NotAfter (Certificate resp) = whole_seconds (issue_now env + 30 * Minute)"
      by simp
  qed
  have c5: "url_library_ok L \<and> dns_name (TrustDomain s) \<and> spiffe_role ctx = Some role \<and> validID role
        \<and> Renew L s env ctx req = Inr resp \<longrightarrow>
        (\<exists>uri. URIs (Certificate resp) = [uri] \<and> Scheme uri = ''spiffe'' \<and> Host uri = TrustDomain s
           \<and> Split (TrimPrefix (Path uri) ''/'') (CHR ''/'') = [role, GetId req])
        \<and> \<not> IsCA (Certificate resp)
        \<and> NotBefore (Certificate resp) = whole_seconds (issue_now env - Minute)
        \<and> NotAfter (Certificate resp)
            = whole_seconds (issue_now env + (if role = ''connector'' then 5 * Minute else 30 * Minute))"
  proof
    assume a: "url_library_ok L \<and> dns_name (TrustDomain s) \<and> spiffe_role ctx = Some role \<and> validID role
        \<and> Renew L s env ctx req = Inr resp"
    then have l: "URIs (Certificate resp)
           = [\<lparr>Scheme = ''spiffe'', Host = TrustDomain s, Path = ''/'' @ role @ ''/'' @ GetId req\<rparr>]
       \<and> \<not> IsCA (Certificate resp)
       \<and> NotBefore (Certificate resp) = whole_seconds (issue_now env - Minute)
       \<and> NotAfter (Certificate resp)
            = whole_seconds (issue_now env + (if role = ''connector'' then 5 * Minute else 30 * Minute))
       \<and> validID (GetId req)"
      using Renew_leaf [of L s ctx role env req resp] by blast
    with a have "Split (TrimPrefix (''/'' @ role @ ''/'' @ GetId req) ''/'') (CHR ''/'')
        = [role, GetId req]"
      by (intro two_segments validID_no_slash) simp_all
    with l show "(\<exists>uri. URIs (Certificate resp) = [uri] \<and> Scheme uri = ''spiffe'' \<and> Host uri = TrustDomain s
           \<and> Split (TrimPrefix (Path uri) ''/'') (CHR ''/'') = [role, GetId req])
        \<and> \<not> IsCA (Certificate resp)
        \<and> NotBefore (Certificate resp) = whole_seconds (issue_now env - Minute)
        \<and> NotAfter (Certificate resp)
            = whole_seconds (issue_now env + (if role = ''connector'' then 5 * Minute else 30 * Minute))"
      by simp
  qed
  from c1 c2 c3 c4 c5 show ?thesis by (intro conjI)
qed

lemma dns_demo: "dns_name (TrustDomain demo_server)"
  by (simp add: demo_server_def dns_name_def label_char_def)

text \<open>
  The connector \<open>c1\<close> enrolls at second 61.5: its leaf is valid from second 1 to second
  361 and names \<open>spiffe://mycorp.internal/connector/c1\<close>; a TTL of 0 issues nothing.
\<close>

theorem issued_leaf_shape_witness:
  "(\<exists>uri. URIs (Certificate (projr (snd (EnrollConnector plain_lib demo_server
                 (demo_env\<lparr>issue_now := 61500000000\<rparr>) (demo_request ''c1'' ''10.0.0.5''))))) = [uri]
        \<and> Scheme uri = ''spiffe'' \<and> Host uri = ''mycorp.internal''
        \<and> Split (TrimPrefix (Path uri) ''/'') (CHR ''/'') = [''connector'', ''c1''])
   \<and> NotBefore (Certificate (projr (snd (EnrollConnector plain_lib demo_server
                 (demo_env\<lparr>issue_now := 61500000000\<rparr>) (demo_request ''c1'' ''10.0.0.5''))))) = 1 * Second
   \<and> NotAfter (Certificate (projr (snd (EnrollConnector plain_lib demo_server
                 (demo_env\<lparr>issue_now := 61500000000\<rparr>) (demo_request ''c1'' ''10.0.0.5''))))) = 361 * Second
   \<and> (\<exists>e. IssueWorkloadCert plain_lib (Some demo_ca) ''spiffe://mycorp.internal/connector/c1''
              ''key'' 0 [] [] (Inr 42) (61 * Second) = Inl e)"
proof -
  let ?env = "demo_env\<lparr>issue_now := 61500000000\<rparr>"
  have r: "snd (EnrollConnector plain_lib demo_server ?env (demo_request ''c1'' ''10.0.0.5''))
      = Inr (projr (snd (EnrollConnector plain_lib demo_server ?env (demo_request ''c1'' ''10.0.0.5''))))"
    by code_simp
  have t: "TrustDomain demo_server = ''mycorp.internal''" "issue_now ?env = 61500000000"
    "GetId (demo_request ''c1'' ''10.0.0.5'') = ''c1''"
    by (simp_all add: demo_server_def demo_request_def)
  from issued_leaf_shape [where L = plain_lib and s = demo_server and env = ?env
      and req = "demo_request ''c1'' ''10.0.0.5''"
      and resp = "projr (snd (EnrollConnector plain_lib demo_server ?env (demo_request ''c1'' ''10.0.0.5'')))"
      and d = 0 and ca = "Some demo_ca" and sid = "''spiffe://mycorp.internal/connector/c1''"
      and pub = "''key''" and dns = "[]" and ips = "[]" and sn = "Inr 42" and now = "61 * Second"]
    plain_lib_ok dns_demo r
  show ?thesis
    unfolding t by (simp add: whole_seconds_def Minute_def Second_def)
qed

text \<open>
  C8. The library parses and prints plain SPIFFE URLs componentwise and the trust domain
  is a DNS-like name. Then the certificate that a successful \<open>EnrollConnector\<close> returns
  has a single URI SAN, which prints as \<open>spiffe://td/connector/id\<close>, and every address
  that \<open>private_ip\<close> parses to is among its IP SANs. (A certificate is represented by
  its fields, so reading the returned PEM gives the certificate that was issued.)
\<close>

theorem EnrollConnector_roundtrip:
  assumes "url_library_ok L" "dns_name (TrustDomain s)"
    and "snd (EnrollConnector L s env req) = Inr resp"
  shows "\<exists>uri. URIs (Certificate resp) = [uri]
           \<and> url_String L uri = ''spiffe://'' @ TrustDomain s @ ''/connector/'' @ GetId req
           \<and> (\<forall>ip. net_ParseIP L (GetPrivateIp req) = Some ip \<longrightarrow> ip \<in> set (IPAddresses (Certificate resp)))"
proof -
  from EnrollConnector_leaf [OF assms]
  have u: "URIs (Certificate resp)
           = [\<lparr>Scheme = ''spiffe'', Host = TrustDomain s, Path = ''/connector/'' @ GetId req\<rparr>]"
    and ips: "IPAddresses (Certificate resp) = parse_ip_list L (GetPrivateIp req)"
    and v: "validID (GetId req)"
    by simp_all
  have "url_String L \<lparr>Scheme = ''spiffe'', Host = TrustDomain s, Path = ''/connector/'' @ GetId req\<rparr>
      = ''spiffe://'' @ TrustDomain s @ (''/connector/'' @ GetId req)"
    using assms(1,2) connector_plain_path [OF v] by (rule url_library_okD)
  with u ips show ?thesis
    by (simp add: parse_ip_list_def)
qed

theorem EnrollConnector_roundtrip_witness:
  "\<exists>uri. URIs (Certificate (projr (snd (EnrollConnector plain_lib demo_server demo_env
                 (demo_request ''c1'' ''10.0.0.5''))))) = [uri]
        \<and> url_String plain_lib uri = ''spiffe://mycorp.internal/connector/c1''
        \<and> map char_of [10 :: nat, 0, 0, 5]
            \<in> set (IPAddresses (Certificate (projr (snd (EnrollConnector plain_lib demo_server demo_env
                 (demo_request ''c1'' ''10.0.0.5''))))))"
proof -
  have r: "snd (EnrollConnector plain_lib demo_server demo_env (demo_request ''c1'' ''10.0.0.5''))
      = Inr (projr (snd (EnrollConnector plain_lib demo_server demo_env (demo_request ''c1'' ''10.0.0.5''))))"
    by code_simp
  have t: "TrustDomain demo_server = ''mycorp.internal''"
    "GetId (demo_request ''c1'' ''10.0.0.5'') = ''c1''"
    "GetPrivateIp (demo_request ''c1'' ''10.0.0.5'') = ''10.0.0.5''"
    by (simp_all add: demo_server_def demo_request_def)
  have ip: "net_ParseIP plain_lib ''10.0.0.5'' = Some (map char_of [10 :: nat, 0, 0, 5])"
    by code_simp
  from EnrollConnector_roundtrip [OF plain_lib_ok dns_demo r] ip
  show ?thesis unfolding t by auto
qed

lemma authorizeConnectorToken_ok:
  assumes "Tokens s = Some store"
    and "snd (ConsumeToken (sha256_Sum256 L) store (token_now env) (token_io env) token cid) = None"
  shows "authorizeConnectorToken L s env token cid =
     (s\<lparr>Tokens := Some (fst (ConsumeToken (sha256_Sum256 L) store (token_now env) (token_io env) token cid))\<rparr>,
      None)"
  using assms
  by (cases "ConsumeToken (sha256_Sum256 L) store (token_now env) (token_io env) token cid")
     (simp add: authorizeConnectorToken_def)

lemma EnrollConnector_succeeds:
  assumes ok: "url_library_ok L" and td: "dns_name (TrustDomain s)"
    and v: "validID (GetId req)" "GetPrivateIp req \<noteq> []" "GetVersion req \<noteq> []"
    and pub: "parsePublicKey L (GetPublicKey req) = Inr pub"
    and tok: "Tokens s = Some store"
      "snd (ConsumeToken (sha256_Sum256 L) store (token_now env) (token_io env) (GetToken req) (GetId req)) = None"
    and ca: "CA s = Some ca" "Cert ca = Some caCert" "Key ca = Some k"
    and sn: "serial env = Inr n"
    and sign: "x509_CreateCertificate L
        (leafTemplate n (issue_now env) (5 * Minute)
           \<lparr>Scheme = ''spiffe'', Host = TrustDomain s, Path = ''/connector/'' @ GetId req\<rparr>
           [] (parse_ip_list L (GetPrivateIp req)))
        caCert pub = None"
  shows "\<exists>resp. snd (EnrollConnector L s env req) = Inr resp
           \<and> IPAddresses (Certificate resp) = parse_ip_list L (GetPrivateIp req)"
proof -
  have p: "url_Parse L (''spiffe://'' @ TrustDomain s @ (''/connector/'' @ GetId req))
      = Inr \<lparr>Scheme = ''spiffe'', Host = TrustDomain s, Path = ''/connector/'' @ GetId req\<rparr>"
    using ok td connector_plain_path [OF v(1)] by (rule url_library_okD)
  have iss: "IssueWorkloadCert L (CA s) (''spiffe://'' @ TrustDomain s @ ''/connector/'' @ GetId req)
       pub (5 * Minute) [] (parse_ip_list L (GetPrivateIp req)) (serial env) (issue_now env)
     = Inr (x509_encoded (leafTemplate n (issue_now env) (5 * Minute)
              \<lparr>Scheme = ''spiffe'', Host = TrustDomain s, Path = ''/connector/'' @ GetId req\<rparr>
              [] (parse_ip_list L (GetPrivateIp req))))"
    using p by (intro IssueWorkloadCert_signed [OF ca _ _ _ sn sign]) (simp_all add: Minute_def Second_def)
  show ?thesis
    using v pub authorizeConnectorToken_ok [OF tok] iss
    by (simp add: EnrollConnector_def Let_def leaf_fields)
qed

lemma EnrollConnector_missing_field:
  assumes "GetPrivateIp req = [] \<or> GetVersion req = []"
  shows "\<exists>m. EnrollConnector L s env req = (s, Inl (Status InvalidArgument m))"
  using assms by (auto simp: EnrollConnector_def)

text \<open>
  C6. The library parses plain SPIFFE URLs componentwise, the trust domain is a DNS-like
  name, the CA is loaded, the random source gives a serial number, and
  \<^verbatim>\<open>x509.CreateCertificate\<close> signs the one template that the call makes for the request
  (whatever it does with other templates). Then for every request whose id is valid,
  whose private address and version are not empty, whose public key parses and whose
  token the store accepts, \<open>EnrollConnector\<close> succeeds; the leaf has no IP SAN when the
  private address does not parse, and exactly the parsed address as IP SAN when it does.
  A request with an empty private address or an empty version fails with
  \<open>InvalidArgument\<close> and leaves the server as it was.
\<close>

theorem EnrollConnector_private_ip:
  "(url_library_ok L \<and> dns_name (TrustDomain s)
      \<and> validID (GetId req) \<and> GetPrivateIp req \<noteq> [] \<and> GetVersion req \<noteq> []
      \<and> parsePublicKey L (GetPublicKey req) = Inr pub
      \<and> Tokens s = Some store
      \<and> snd (ConsumeToken (sha256_Sum256 L) store (token_now env) (token_io env)
               (GetToken req) (GetId req)) = None
      \<and> CA s = Some ca \<and> Cert ca = Some caCert \<and> Key ca = Some k \<and> serial env = Inr n
      \<and> x509_CreateCertificate L
            (leafTemplate n (issue_now env) (5 * Minute)
               \<lparr>Scheme = ''spiffe'', Host = TrustDomain s, Path = ''/connector/'' @ GetId req\<rparr>
               [] (parse_ip_list L (GetPrivateIp req)))
            caCert pub = None
     \<longrightarrow> (\<exists>resp. snd (EnrollConnector L s env req) = Inr resp
            \<and> (net_ParseIP L (GetPrivateIp req) = None \<longrightarrow> IPAddresses (Certificate resp) = [])
            \<and> (\<forall>ip. net_ParseIP L (GetPrivateIp req) = Some ip \<longrightarrow>
                  IPAddresses (Certificate resp) = [ip])))
   \<and> (GetPrivateIp req = [] \<or> GetVersion req = [] \<longrightarrow>
        (\<exists>m. EnrollConnector L s env req = (s, Inl (Status InvalidArgument m))))"
proof -
  have a: "url_library_ok L \<and> dns_name (TrustDomain s)
      \<and> validID (GetId req) \<and> GetPrivateIp req \<noteq> [] \<and> GetVersion req \<noteq> []
      \<and> parsePublicKey L (GetPublicKey req) = Inr pub
      \<and> Tokens s = Some store
      \<and> snd (ConsumeToken (sha256_Sum256 L) store (token_now env) (token_io env)
               (GetToken req) (GetId req)) = None
      \<and> CA s = Some ca \<and> Cert ca = Some caCert \<and> Key ca = Some k \<and> serial env = Inr n
      \<and> x509_CreateCertificate L
            (leafTemplate n (issue_now env) (5 * Minute)
               \<lparr>Scheme = ''spiffe'', Host = TrustDomain s, Path = ''/connector/'' @ GetId req\<rparr>
               [] (parse_ip_list L (GetPrivateIp req)))
            caCert pub = None
     \<longrightarrow> (\<exists>resp. snd (EnrollConnector L s env req) = Inr resp
            \<and> (net_ParseIP L (GetPrivateIp req) = None \<longrightarrow> IPAddresses (Certificate resp) = [])
            \<and> (\<forall>ip. net_ParseIP L (GetPrivateIp req) = Some ip \<longrightarrow>
                  IPAddresses (Certificate resp) = [ip]))"
  proof
    assume h: "url_library_ok L \<and> dns_name (TrustDomain s)
      \<and> validID (GetId req) \<and> GetPrivateIp req \<noteq> [] \<and> GetVersion req \<noteq> []
      \<and> parsePublicKey L (GetPublicKey req) = Inr pub
      \<and> Tokens s = Some store
      \<and> snd (ConsumeToken (sha256_Sum256 L) store (token_now env) (token_io env)
               (GetToken req) (GetId req)) = None
      \<and> CA s = Some ca \<and> Cert ca = Some caCert \<and> Key ca = Some k \<and> serial env = Inr n
      \<and> x509_CreateCertificate L
            (leafTemplate n (issue_now env) (5 * Minute)
               \<lparr>Scheme = ''spiffe'', Host = TrustDomain s, Path = ''/connector/'' @ GetId req\<rparr>
               [] (parse_ip_list L (GetPrivateIp req)))
            caCert pub = None"
    then obtain resp where "snd (EnrollConnector L s env req) = Inr resp"
      "IPAddresses (Certificate resp) = parse_ip_list L (GetPrivateIp req)"
      using EnrollConnector_succeeds [of L s req pub store env ca caCert k n] by blast
    then show "\<exists>resp. snd (EnrollConnector L s env req) = Inr resp
            \<and> (net_ParseIP L (GetPrivateIp req) = None \<longrightarrow> IPAddresses (Certificate resp) = [])
            \<and> (\<forall>ip. net_ParseIP L (GetPrivateIp req) = Some ip \<longrightarrow>
                  IPAddresses (Certificate resp) = [ip])"
      by (auto simp: parse_ip_list_def)
  qed
  moreover have "GetPrivateIp req = [] \<or> GetVersion req = [] \<longrightarrow>
        (\<exists>m. EnrollConnector L s env req = (s, Inl (Status InvalidArgument m)))"
    using EnrollConnector_missing_field [of req L s env] by blast
  ultimately show ?thesis by (rule conjI)
qed

text \<open>
  The connector \<open>c1\<close> enrolls with the private address \<open>not-an-ip\<close>: the call succeeds
  and the leaf has no IP SAN. With \<open>10.0.0.5\<close> the leaf has that address as its IP SAN.
  With an empty private address the call fails. The signer of the example refuses other
  templates, one with the DNS name \<open>caf\<close> followed by the byte 233 for instance.
\<close>

theorem EnrollConnector_private_ip_witness:
  "(\<exists>resp. snd (EnrollConnector plain_lib demo_server demo_env (demo_request ''c1'' ''not-an-ip'')) = Inr resp
        \<and> net_ParseIP plain_lib (GetPrivateIp (demo_request ''c1'' ''not-an-ip'')) = None
        \<and> IPAddresses (Certificate resp) = [])
   \<and> (\<exists>resp. snd (EnrollConnector plain_lib demo_server demo_env (demo_request ''c1'' ''10.0.0.5'')) = Inr resp
        \<and> IPAddresses (Certificate resp) = [map char_of [10 :: nat, 0, 0, 5]])
   \<and> (\<exists>m. EnrollConnector plain_lib demo_server demo_env (demo_request ''c1'' [])
          = (demo_server, Inl (Status InvalidArgument m)))
   \<and> x509_CreateCertificate plain_lib
        (leafTemplate 42 0 (5 * Minute)
           \<lparr>Scheme = ''spiffe'', Host = ''mycorp.internal'', Path = ''/connector/c1''\<rparr>
           [''caf'' @ [char_of (233 :: nat)]] [])
        (the (Cert demo_ca)) ''-----BEGIN PUBLIC KEY-----'' \<noteq> None"
proof -
  let ?store = "fst (CreateToken (\<lambda>t. t) (NewTokenStore (10 * Minute) [] None)
                            (Inr ''0123456789abcdef'') 0 None)"
  let ?key = "''-----BEGIN PUBLIC KEY-----''"
  let ?req = "demo_request ''c1'' ''not-an-ip''"
  let ?req5 = "demo_request ''c1'' ''10.0.0.5''"
  have v: "validID (GetId ?req)" "GetPrivateIp ?req \<noteq> []" "GetVersion ?req \<noteq> []"
    and v5: "validID (GetId ?req5)" "GetPrivateIp ?req5 \<noteq> []" "GetVersion ?req5 \<noteq> []"
    by code_simp+
  have k: "parsePublicKey plain_lib (GetPublicKey ?req) = Inr ?key"
    and k5: "parsePublicKey plain_lib (GetPublicKey ?req5) = Inr ?key"
    by code_simp+
  have t: "Tokens demo_server = Some ?store"
    by (simp add: demo_server_def)
  have c: "snd (ConsumeToken (sha256_Sum256 plain_lib) ?store (token_now demo_env) (token_io demo_env)
               (GetToken ?req) (GetId ?req)) = None"
    and c5: "snd (ConsumeToken (sha256_Sum256 plain_lib) ?store (token_now demo_env) (token_io demo_env)
               (GetToken ?req5) (GetId ?req5)) = None"
    by code_simp+
  have ca: "CA demo_server = Some demo_ca" "Cert demo_ca = Some (the (Cert demo_ca))"
    "Key demo_ca = Some ''ca-key''" "serial demo_env = Inr 42"
    by (simp_all add: demo_server_def demo_ca_def demo_env_def)
  have n1: "net_ParseIP plain_lib (GetPrivateIp ?req) = None"
    and n5: "net_ParseIP plain_lib (GetPrivateIp ?req5) = Some (map char_of [10 :: nat, 0, 0, 5])"
    by code_simp+
  have sg: "x509_CreateCertificate plain_lib
        (leafTemplate 42 (issue_now demo_env) (5 * Minute)
           \<lparr>Scheme = ''spiffe'', Host = TrustDomain demo_server, Path = ''/connector/'' @ GetId ?req\<rparr>
           [] (parse_ip_list plain_lib (GetPrivateIp ?req)))
        (the (Cert demo_ca)) ?key = None"
    and sg5: "x509_CreateCertificate plain_lib
        (leafTemplate 42 (issue_now demo_env) (5 * Minute)
           \<lparr>Scheme = ''spiffe'', Host = TrustDomain demo_server, Path = ''/connector/'' @ GetId ?req5\<rparr>
           [] (parse_ip_list plain_lib (GetPrivateIp ?req5)))
        (the (Cert demo_ca)) ?key = None"
    by code_simp+
  have refused: "x509_CreateCertificate plain_lib
        (leafTemplate 42 0 (5 * Minute)
           \<lparr>Scheme = ''spiffe'', Host = ''mycorp.internal'', Path = ''/connector/c1''\<rparr>
           [''caf'' @ [char_of (233 :: nat)]] [])
        (the (Cert demo_ca)) ''-----BEGIN PUBLIC KEY-----'' \<noteq> None"
    by code_simp
  note T = EnrollConnector_private_ip [where L = plain_lib and s = demo_server and env = demo_env
      and req = ?req and store = ?store and ca = demo_ca
      and caCert = "the (Cert demo_ca)" and k = "''ca-key''" and n = 42 and pub = ?key]
  have "\<exists>resp. snd (EnrollConnector plain_lib demo_server demo_env ?req) = Inr resp
            \<and> (net_ParseIP plain_lib (GetPrivateIp ?req) = None \<longrightarrow> IPAddresses (Certificate resp) = [])
            \<and> (\<forall>ip. net_ParseIP plain_lib (GetPrivateIp ?req) = Some ip \<longrightarrow>
                  IPAddresses (Certificate resp) = [ip])"
    by (rule T [THEN conjunct1, THEN mp])
       (intro conjI plain_lib_ok dns_demo v k t c ca sg)
  then obtain resp where "snd (EnrollConnector plain_lib demo_server demo_env ?req) = Inr resp"
    and "net_ParseIP plain_lib (GetPrivateIp ?req) = None \<longrightarrow> IPAddresses (Certificate resp) = []"
    by (elim exE conjE)
  with n1 have c1: "\<exists>resp. snd (EnrollConnector plain_lib demo_server demo_env ?req) = Inr resp
        \<and> net_ParseIP plain_lib (GetPrivateIp ?req) = None \<and> IPAddresses (Certificate resp) = []"
    by (intro exI [of _ resp] conjI) simp_all
  note T5 = EnrollConnector_private_ip [where L = plain_lib and s = demo_server and env = demo_env
      and req = ?req5 and store = ?store and ca = demo_ca
      and caCert = "the (Cert demo_ca)" and k = "''ca-key''" and n = 42 and pub = ?key]
  have "\<exists>resp. snd (EnrollConnector plain_lib demo_server demo_env ?req5) = Inr resp
            \<and> (net_ParseIP plain_lib (GetPrivateIp ?req5) = None \<longrightarrow> IPAddresses (Certificate resp) = [])
            \<and> (\<forall>ip. net_ParseIP plain_lib (GetPrivateIp ?req5) = Some ip \<longrightarrow>
                  IPAddresses (Certificate resp) = [ip])"
    by (rule T5 [THEN conjunct1, THEN mp])
       (intro conjI plain_lib_ok dns_demo v5 k5 t c5 ca sg5)
  then obtain resp5 where r5: "snd (EnrollConnector plain_lib demo_server demo_env ?req5) = Inr resp5"
    and "\<forall>ip. net_ParseIP plain_lib (GetPrivateIp ?req5) = Some ip \<longrightarrow>
                  IPAddresses (Certificate resp5) = [ip]"
    by (elim exE conjE)
  then have "IPAddresses (Certificate resp5) = [map char_of [10 :: nat, 0, 0, 5]]"
    using n5 by (elim allE [of _ "map char_of [10 :: nat, 0, 0, 5]"]) (rule mp)
  with r5 have c2: "\<exists>resp. snd (EnrollConnector plain_lib demo_server demo_env ?req5) = Inr resp
        \<and> IPAddresses (Certificate resp) = [map char_of [10 :: nat, 0, 0, 5]]"
    by (intro exI [of _ resp5] conjI)
  note T0 = EnrollConnector_private_ip [where L = plain_lib and s = demo_server and env = demo_env
      and req = "demo_request ''c1'' []"]
  have e: "GetPrivateIp (demo_request ''c1'' []) = []"
    by (simp add: demo_request_def)
  have c3: "\<exists>m. EnrollConnector plain_lib demo_server demo_env (demo_request ''c1'' [])
          = (demo_server, Inl (Status InvalidArgument m))"
    by (rule T0 [THEN conjunct2, THEN mp]) (intro disjI1 e)
  from c1 c2 c3 refused show ?thesis by (intro conjI)
qed

section \<open>Renewal of a certificate\<close>

lemma Renew_invalid:
  "\<not> validID (GetId req) \<Longrightarrow> Renew L s env ctx req = Inl (Status InvalidArgument ''missing id'')"
  by (simp add: Renew_def)

lemma Renew_bad_key:
  "validID (GetId req) \<Longrightarrow> parsePublicKey L (GetPublicKey req) = Inl e \<Longrightarrow>
     Renew L s env ctx req = Inl (Status InvalidArgument (''invalid public key: '' @ error_text e))"
  by (simp add: Renew_def)

lemma Renew_no_identity:
  assumes "validID (GetId req)" "parsePublicKey L (GetPublicKey req) = Inr pub"
    and "spiffe_id ctx = None \<or> spiffe_role ctx = None"
  shows "\<exists>m. Renew L s env ctx req = Inl (Status Unauthenticated m)"
  using assms by (auto simp: Renew_def identityFromContext_def split: option.splits)

lemma Renew_mismatch:
  assumes "validID (GetId req)" "parsePublicKey L (GetPublicKey req) = Inr pub"
    and "identityFromContext s ctx = Inr (role, i)" "i \<noteq> GetId req"
  shows "Renew L s env ctx req = Inl (Status PermissionDenied ''id mismatch for renewal'')"
  using assms by (simp add: Renew_def)

text \<open>
  C2, amended. \<open>Renew\<close> succeeds only if the context carries a SPIFFE identity and a
  role, and the id that is left of the identity after the prefix
  \<open>spiffe://td/role/\<close> equals the id of the request. For a request whose id is valid and
  whose public key parses: when the identity or the role is missing the call fails with
  \<open>Unauthenticated\<close>, and when the extracted id differs from the id of the request it
  fails with \<open>PermissionDenied\<close>; in both cases no response, hence no certificate, is
  returned. A request whose id is not valid or whose public key does not parse fails with
  \<open>InvalidArgument\<close>, whatever the identity.
\<close>

theorem Renew_identity:
  "(Renew L s env ctx req = Inr resp \<longrightarrow>
      (\<exists>spiffeID role. spiffe_id ctx = Some spiffeID \<and> spiffe_role ctx = Some role
         \<and> identityFromContext s ctx = Inr (role, GetId req)
         \<and> TrimPrefix spiffeID (''spiffe://'' @ TrustDomain s @ ''/'' @ role @ ''/'') = GetId req))
   \<and> (validID (GetId req) \<and> parsePublicKey L (GetPublicKey req) = Inr pub
        \<and> (spiffe_id ctx = None \<or> spiffe_role ctx = None) \<longrightarrow>
        (\<exists>m. Renew L s env ctx req = Inl (Status Unauthenticated m)))
   \<and> (validID (GetId req) \<and> parsePublicKey L (GetPublicKey req) = Inr pub
        \<and> identityFromContext s ctx = Inr (role, i) \<and> i \<noteq> GetId req \<longrightarrow>
        Renew L s env ctx req = Inl (Status PermissionDenied ''id mismatch for renewal''))
   \<and> (\<not> validID (GetId req) \<or> parsePublicKey L (GetPublicKey req) = Inl e \<longrightarrow>
        (\<exists>m. Renew L s env ctx req = Inl (Status InvalidArgument m)))"
proof -
  have "Renew L s env ctx req = Inr resp \<longrightarrow>
      (\<exists>spiffeID role. spiffe_id ctx = Some spiffeID \<and> spiffe_role ctx = Some role
         \<and> identityFromContext s ctx = Inr (role, GetId req)
         \<and> TrimPrefix spiffeID (''spiffe://'' @ TrustDomain s @ ''/'' @ role @ ''/'') = GetId req)"
  proof
    assume "Renew L s env ctx req = Inr resp"
    from Renew_Inr [OF this] obtain role where
      idn: "identityFromContext s ctx = Inr (role, GetId req)" by blast
    from identityFromContext_Inr [OF idn] idn
    show "\<exists>spiffeID role. spiffe_id ctx = Some spiffeID \<and> spiffe_role ctx = Some role
         \<and> identityFromContext s ctx = Inr (role, GetId req)
         \<and> TrimPrefix spiffeID (''spiffe://'' @ TrustDomain s @ ''/'' @ role @ ''/'') = GetId req"
      by auto
  qed
  moreover have "validID (GetId req) \<and> parsePublicKey L (GetPublicKey req) = Inr pub
        \<and> (spiffe_id ctx = None \<or> spiffe_role ctx = None) \<longrightarrow>
        (\<exists>m. Renew L s env ctx req = Inl (Status Unauthenticated m))"
    using Renew_no_identity [of req L pub ctx s env] by blast
  moreover have "validID (GetId req) \<and> parsePublicKey L (GetPublicKey req) = Inr pub
        \<and> identityFromContext s ctx = Inr (role, i) \<and> i \<noteq> GetId req \<longrightarrow>
        Renew L s env ctx req = Inl (Status PermissionDenied ''id mismatch for renewal'')"
    using Renew_mismatch [of req L pub s ctx role i env] by blast
  moreover have "\<not> validID (GetId req) \<or> parsePublicKey L (GetPublicKey req) = Inl e \<longrightarrow>
        (\<exists>m. Renew L s env ctx req = Inl (Status InvalidArgument m))"
    using Renew_invalid [of req L s env ctx] Renew_bad_key [of req L e s env ctx] by blast
  ultimately show ?thesis by (intro conjI)
qed

text \<open>
  C2, as the claim states it, fails: the validity of the request is tested before the
  identity, so a call without identity and with an empty id fails with
  \<open>InvalidArgument\<close>, not with \<open>Unauthenticated\<close>.
\<close>

theorem Renew_missing_identity_counterexample:
  "spiffe_id (demo_context None None) = None
   \<and> Renew plain_lib demo_server demo_env (demo_context None None) (demo_request [] [])
       = Inl (Status InvalidArgument ''missing id'')"
  by (simp add: Renew_def validID_def demo_request_def demo_context_def)

text \<open>
  The connector \<open>c7\<close> renews its own certificate; without identity the call is
  unauthenticated; the connector \<open>c1\<close> is denied the renewal of \<open>c2\<close>; an empty id
  is an invalid argument.
\<close>

theorem Renew_identity_witness:
  "(\<exists>resp. Renew plain_lib demo_server demo_env
       (demo_context (Some ''spiffe://mycorp.internal/connector/c7'') (Some ''connector''))
       (demo_request ''c7'' []) = Inr resp)
   \<and> identityFromContext demo_server
        (demo_context (Some ''spiffe://mycorp.internal/connector/c7'') (Some ''connector''))
       = Inr (''connector'', GetId (demo_request ''c7'' []))
   \<and> (\<exists>m. Renew plain_lib demo_server demo_env (demo_context None None) (demo_request ''c7'' [])
          = Inl (Status Unauthenticated m))
   \<and> Renew plain_lib demo_server demo_env
       (demo_context (Some ''spiffe://mycorp.internal/connector/c1'') (Some ''connector''))
       (demo_request ''c2'' []) = Inl (Status PermissionDenied ''id mismatch for renewal'')
   \<and> (\<exists>m. Renew plain_lib demo_server demo_env (demo_context None None) (demo_request [] [])
          = Inl (Status InvalidArgument m))"
proof -
  let ?ctx7 = "demo_context (Some ''spiffe://mycorp.internal/connector/c7'') (Some ''connector'')"
  let ?ctx1 = "demo_context (Some ''spiffe://mycorp.internal/connector/c1'') (Some ''connector'')"
  let ?key = "''-----BEGIN PUBLIC KEY-----''"
  have r: "Renew plain_lib demo_server demo_env ?ctx7 (demo_request ''c7'' [])
      = Inr (projr (Renew plain_lib demo_server demo_env ?ctx7 (demo_request ''c7'' [])))"
    by code_simp
  have v7: "validID (GetId (demo_request ''c7'' []))"
    and v2: "validID (GetId (demo_request ''c2'' []))"
    and v0: "\<not> validID (GetId (demo_request [] []))"
    by code_simp+
  have k7: "parsePublicKey plain_lib (GetPublicKey (demo_request ''c7'' [])) = Inr ?key"
    and k2: "parsePublicKey plain_lib (GetPublicKey (demo_request ''c2'' [])) = Inr ?key"
    by code_simp+
  have n: "spiffe_id (demo_context None None) = None"
    by (simp add: demo_context_def)
  have i1: "identityFromContext demo_server ?ctx1 = Inr (''connector'', ''c1'')"
    by code_simp
  have ne: "''c1'' \<noteq> GetId (demo_request ''c2'' [])"
    by (simp add: demo_request_def)
  have s7: "spiffe_role ?ctx7 = Some ''connector''"
    by (simp add: demo_context_def)
  note T7 = Renew_identity [where L = plain_lib and s = demo_server and env = demo_env and ctx = ?ctx7
      and req = "demo_request ''c7'' []"
      and resp = "projr (Renew plain_lib demo_server demo_env ?ctx7 (demo_request ''c7'' []))"]
  from T7 [THEN conjunct1, THEN mp, OF r] s7
  have c1: "identityFromContext demo_server ?ctx7 = Inr (''connector'', GetId (demo_request ''c7'' []))"
    by (elim exE conjE) simp
  note Tn = Renew_identity [where L = plain_lib and s = demo_server and env = demo_env
      and ctx = "demo_context None None" and req = "demo_request ''c7'' []" and pub = ?key]
  have c2: "\<exists>m. Renew plain_lib demo_server demo_env (demo_context None None) (demo_request ''c7'' [])
          = Inl (Status Unauthenticated m)"
    by (rule Tn [THEN conjunct2, THEN conjunct1, THEN mp]) (intro conjI disjI1 v7 k7 n)
  note T1 = Renew_identity [where L = plain_lib and s = demo_server and env = demo_env
      and ctx = ?ctx1 and req = "demo_request ''c2'' []" and role = "''connector''" and i = "''c1''"
      and pub = ?key]
  have c3: "Renew plain_lib demo_server demo_env ?ctx1 (demo_request ''c2'' [])
      = Inl (Status PermissionDenied ''id mismatch for renewal'')"
    by (rule T1 [THEN conjunct2, THEN conjunct2, THEN conjunct1, THEN mp]) (intro conjI v2 k2 i1 ne)
  note T0 = Renew_identity [where L = plain_lib and s = demo_server and env = demo_env
      and ctx = "demo_context None None" and req = "demo_request [] []"]
  have c4: "\<exists>m. Renew plain_lib demo_server demo_env (demo_context None None) (demo_request [] [])
          = Inl (Status InvalidArgument m)"
    by (rule T0 [THEN conjunct2, THEN conjunct2, THEN conjunct2, THEN mp]) (intro disjI1 v0)
  have c0: "\<exists>resp. Renew plain_lib demo_server demo_env ?ctx7 (demo_request ''c7'' []) = Inr resp"
    using r by (rule exI)
  from c0 c1 c2 c3 c4 show ?thesis by (intro conjI)
qed

section \<open>Authentication of peers\<close>

lemma extractAndVerifySPIFFE_Inr:
  assumes "extractAndVerifySPIFFE L ctx td roles = Inr (sid, role)"
  shows "\<exists>cert rest uri seg. peer ctx = Some (TLSInfo (cert # rest)) \<and> URIs cert = [uri]
           \<and> Scheme uri = ''spiffe'' \<and> Host uri = td
           \<and> Split (TrimPrefix (Path uri) ''/'') (CHR ''/'') = [role, seg]
           \<and> (roles = {} \<or> role \<in> roles) \<and> sid = url_String L uri"
proof -
  obtain certs where p: "peer ctx = Some (TLSInfo certs)"
    using assms by (auto simp: extractAndVerifySPIFFE_def split: option.splits AuthInfo.splits)
  obtain cert rest where c: "certs = cert # rest"
    using assms p by (cases certs) (auto simp: extractAndVerifySPIFFE_def)
  obtain uri where u: "URIs cert = [uri]"
    using assms p c by (auto simp: extractAndVerifySPIFFE_def split: list.splits)
  have s: "Scheme uri = ''spiffe''" "Host uri = td"
    using assms p c u by (auto simp: extractAndVerifySPIFFE_def split: if_splits)
  obtain r seg where sp: "Split (TrimPrefix (Path uri) ''/'') (CHR ''/'') = [r, seg]"
    using assms p c u s by (auto simp: extractAndVerifySPIFFE_def split: list.splits)
  have "(roles = {} \<or> r \<in> roles) \<and> sid = url_String L uri \<and> role = r"
    using assms p c u s sp by (auto simp: extractAndVerifySPIFFE_def split: if_splits)
  with p c u s sp show ?thesis by auto
qed

lemma extractAndVerifySPIFFE_accept:
  assumes "peer ctx = Some (TLSInfo (cert # rest))" "URIs cert = [uri]"
    and "Scheme uri = ''spiffe''" "Host uri = td"
    and "Split (TrimPrefix (Path uri) ''/'') (CHR ''/'') = [role, seg]"
    and "roles = {} \<or> role \<in> roles"
  shows "extractAndVerifySPIFFE L ctx td roles = Inr (url_String L uri, role)"
  using assms by (auto simp: extractAndVerifySPIFFE_def)

lemma makeRoleSet_no_empty: "[] \<notin> makeRoleSet rs"
  by (simp add: makeRoleSet_def)

lemma UnaryAuthInterceptor_reject:
  assumes "m \<notin> unauth" "extractAndVerifySPIFFE L ctx td (makeRoleSet rs) = Inl e"
  shows "UnaryAuthInterceptor L td unauth rs ctx m handler = Inl e"
  using assms by (simp add: UnaryAuthInterceptor_def)

text \<open>
  C4, amended. The interceptor accepts a peer exactly when the connection is TLS, the
  peer presents a certificate, the leaf has exactly one URI SAN, of scheme \<open>spiffe\<close> and
  with the trust domain as host, the path of that URI, without one leading \<open>/\<close>, splits
  at \<open>/\<close> into exactly two segments, and the first of them, the role, is in the set of
  allowed roles when that set is not empty. The segments need not be non-empty: an empty
  id is accepted, and an empty role is rejected only through a non-empty set of allowed
  roles, which never holds the empty name. A peer that is rejected on a method that is not
  exempt does not reach the handler.
\<close>

theorem interceptor_accepts:
  "(extractAndVerifySPIFFE L ctx td roles = Inr (sid, role)) =
      (\<exists>cert rest uri seg. peer ctx = Some (TLSInfo (cert # rest)) \<and> URIs cert = [uri]
           \<and> Scheme uri = ''spiffe'' \<and> Host uri = td
           \<and> Split (TrimPrefix (Path uri) ''/'') (CHR ''/'') = [role, seg]
           \<and> (roles = {} \<or> role \<in> roles) \<and> sid = url_String L uri)
   \<and> (extractAndVerifySPIFFE L ctx td (makeRoleSet rs) = Inr (sid, role) \<and> makeRoleSet rs \<noteq> {}
        \<longrightarrow> role \<noteq> [])
   \<and> (m \<notin> unauth \<and> extractAndVerifySPIFFE L ctx td (makeRoleSet rs) = Inl e
        \<longrightarrow> UnaryAuthInterceptor L td unauth rs ctx m handler = Inl e)"
proof -
  have "(extractAndVerifySPIFFE L ctx td roles = Inr (sid, role)) =
      (\<exists>cert rest uri seg. peer ctx = Some (TLSInfo (cert # rest)) \<and> URIs cert = [uri]
           \<and> Scheme uri = ''spiffe'' \<and> Host uri = td
           \<and> Split (TrimPrefix (Path uri) ''/'') (CHR ''/'') = [role, seg]
           \<and> (roles = {} \<or> role \<in> roles) \<and> sid = url_String L uri)"
    (is "?lhs = ?rhs")
  proof
    assume ?lhs
    then show ?rhs by (rule extractAndVerifySPIFFE_Inr)
  next
    assume ?rhs
    then show ?lhs by (auto simp: extractAndVerifySPIFFE_accept)
  qed
  moreover have "extractAndVerifySPIFFE L ctx td (makeRoleSet rs) = Inr (sid, role) \<and> makeRoleSet rs \<noteq> {}
        \<longrightarrow> role \<noteq> []"
  proof
    assume a: "extractAndVerifySPIFFE L ctx td (makeRoleSet rs) = Inr (sid, role) \<and> makeRoleSet rs \<noteq> {}"
    then have "makeRoleSet rs = {} \<or> role \<in> makeRoleSet rs"
      using extractAndVerifySPIFFE_Inr [of L ctx td "makeRoleSet rs" sid role] by blast
    with a show "role \<noteq> []"
      using makeRoleSet_no_empty [of rs] by auto
  qed
  moreover have "m \<notin> unauth \<and> extractAndVerifySPIFFE L ctx td (makeRoleSet rs) = Inl e
        \<longrightarrow> UnaryAuthInterceptor L td unauth rs ctx m handler = Inl e"
    using UnaryAuthInterceptor_reject [of m unauth L ctx td rs e handler] by blast
  ultimately show ?thesis by (intro conjI)
qed

text \<open>
  C4, as the claim states it, fails: the path \<open>/connector/\<close> has the role \<open>connector\<close>
  and an empty id, and the interceptor lets the call through to the handler, which sees
  the role \<open>connector\<close> in its context.
\<close>

theorem interceptor_empty_id_counterexample:
  "Split (TrimPrefix ''/connector/'' ''/'') (CHR ''/'') = [''connector'', []]
   \<and> UnaryAuthInterceptor plain_lib ''mycorp.internal'' {''/controller.v1.EnrollmentService/EnrollConnector''}
         [''connector'', ''tunneler'']
         (peer_context [\<lparr>Scheme = ''spiffe'', Host = ''mycorp.internal'', Path = ''/connector/''\<rparr>])
         ''/controller.v1.EnrollmentService/Renew'' spiffe_role
       = Inr (Some ''connector'')"
  by code_simp

text \<open>
  A peer of the trust domain with the path \<open>/connector/c1\<close> is accepted as a connector;
  a peer of another trust domain is rejected on \<open>Renew\<close> before the handler.
\<close>

theorem interceptor_accepts_witness:
  "extractAndVerifySPIFFE plain_lib
       (peer_context [\<lparr>Scheme = ''spiffe'', Host = ''mycorp.internal'', Path = ''/connector/c1''\<rparr>])
       ''mycorp.internal'' (makeRoleSet [''connector'', ''tunneler''])
     = Inr (''spiffe://mycorp.internal/connector/c1'', ''connector'')
   \<and> UnaryAuthInterceptor plain_lib ''mycorp.internal'' {''/controller.v1.EnrollmentService/EnrollConnector''}
         [''connector'', ''tunneler'']
         (peer_context [\<lparr>Scheme = ''spiffe'', Host = ''other.internal'', Path = ''/connector/c1''\<rparr>])
         ''/controller.v1.EnrollmentService/Renew'' spiffe_role
       = Inl (Error ''SPIFFE trust domain mismatch'')"
proof -
  let ?u = "\<lparr>Scheme = ''spiffe'', Host = ''mycorp.internal'', Path = ''/connector/c1''\<rparr>"
  let ?v = "\<lparr>Scheme = ''spiffe'', Host = ''other.internal'', Path = ''/connector/c1''\<rparr>"
  let ?roles = "makeRoleSet [''connector'', ''tunneler'']"
  note T = interceptor_accepts [where L = plain_lib and ctx = "peer_context [?u]"
      and td = "''mycorp.internal''" and roles = ?roles
      and sid = "''spiffe://mycorp.internal/connector/c1''" and role = "''connector''"]
  have a: "\<exists>cert rest uri seg. peer (peer_context [?u]) = Some (TLSInfo (cert # rest)) \<and> URIs cert = [uri]
           \<and> Scheme uri = ''spiffe'' \<and> Host uri = ''mycorp.internal''
           \<and> Split (TrimPrefix (Path uri) ''/'') (CHR ''/'') = [''connector'', seg]
           \<and> (?roles = {} \<or> ''connector'' \<in> ?roles)
           \<and> ''spiffe://mycorp.internal/connector/c1'' = url_String plain_lib uri"
    apply (rule exI [of _ "peer_certificate [?u]"])
    apply (rule exI [of _ "[]"])
    apply (rule exI [of _ ?u])
    apply (rule exI [of _ "''c1''"])
    apply (simp add: peer_context_def peer_certificate_def TrimPrefix_def makeRoleSet_def
        plain_lib_def plain_url_String_def)
    done
  have c1: "extractAndVerifySPIFFE plain_lib (peer_context [?u]) ''mycorp.internal'' ?roles
     = Inr (''spiffe://mycorp.internal/connector/c1'', ''connector'')"
    using T [THEN conjunct1] a by (rule iffD2)
  note R = interceptor_accepts [where L = plain_lib and ctx = "peer_context [?v]"
      and td = "''mycorp.internal''" and rs = "[''connector'', ''tunneler'']"
      and m = "''/controller.v1.EnrollmentService/Renew''"
      and unauth = "{''/controller.v1.EnrollmentService/EnrollConnector''}"
      and e = "Error ''SPIFFE trust domain mismatch''" and handler = spiffe_role]
  have m: "''/controller.v1.EnrollmentService/Renew'' \<notin> {''/controller.v1.EnrollmentService/EnrollConnector''}"
    by simp
  have x: "extractAndVerifySPIFFE plain_lib (peer_context [?v]) ''mycorp.internal'' ?roles
      = Inl (Error ''SPIFFE trust domain mismatch'')"
    by (simp add: extractAndVerifySPIFFE_def peer_context_def peer_certificate_def)
  have c2: "UnaryAuthInterceptor plain_lib ''mycorp.internal'' {''/controller.v1.EnrollmentService/EnrollConnector''}
         [''connector'', ''tunneler''] (peer_context [?v])
         ''/controller.v1.EnrollmentService/Renew'' spiffe_role
       = Inl (Error ''SPIFFE trust domain mismatch'')"
    by (rule R [THEN conjunct2, THEN conjunct2, THEN mp]) (intro conjI m x)
  from c1 c2 show ?thesis by (rule conjI)
qed

end
